theory Spec2Isabelle
  imports Main "HOL-Library.AList" "HOL-Library.Monad_Syntax"
begin

section \<open>Data model\<close>

text \<open>
  The persistent state is the set of tables of \<^verbatim>\<open>prisma/schema.prisma\<close>, each table a list
  of rows in storage order. Identifiers are the strings the schema declares. A request
  handler takes the database, the session and the request, and returns the HTTP response
  together with the database after the call: every \<^verbatim>\<open>return NextResponse.json\<close> of a
  handler is one branch of its model, and the \<^verbatim>\<open>catch\<close> block of a handler is the
  branch with status 500.

  Persistence calls are taken to succeed unless a constraint of the schema that the
  model writes out (a unique key, a foreign key, a primary key) rejects them; the
  section on the update of a notification configuration adds writes that fail, because
  the property studied there is about such a failure. The message texts of the
  responses are left out, a response being its status and its data; where a French
  string of the source is kept, its accented letters are written without accent.
\<close>

type_synonym id = string

datatype UserRole = SUPER_ADMIN | ADMIN | USER

datatype GroupRole = GroupRole_ADMIN | GroupRole_MEMBER

datatype NotificationChannelType = EMAIL | WEBHOOK

datatype NotificationStatus = PENDING | SENT | FAILED

datatype Level = INFO | WARNING | ERROR

text \<open>
  JSON values as the handlers see them after \<^verbatim>\<open>request.json()\<close>, with the two values
  JavaScript adds when a handler builds an object itself: \<^verbatim>\<open>undefined\<close> and a
  \<^verbatim>\<open>Date\<close>. An object is the list of its own properties in insertion order. Numbers
  are never computed with and are kept as integers.
\<close>

datatype json =
    JUndefined
  | JNull
  | JBool bool
  | JNum int
  | JStr string
  | JDate nat
  | JArr "json list"
  | JObj "(string \<times> json) list"

type_synonym jobject = "(string \<times> json) list"

record User =
  user_id :: id
  user_email :: string
  user_name :: string
  user_password :: string
  user_role :: UserRole

record Group =
  group_id :: id
  group_name :: string
  group_description :: string

text \<open>
  A row of \<^verbatim>\<open>GroupUser\<close>. Its surrogate key \<^verbatim>\<open>id\<close> is only ever used to write back
  the row that \<^verbatim>\<open>findFirst\<close> has just returned, so the row itself stands for it.
\<close>

record GroupUser =
  gu_userId :: id
  gu_groupId :: id
  gu_role :: GroupRole

record Server =
  server_id :: id
  server_name :: string
  server_groups :: "id list"
  server_createdById :: id

record Probe =
  probe_id :: id
  probe_name :: string
  probe_serverId :: id
  probe_groups :: "id list"

record NotificationConfig =
  nc_id :: id
  nc_name :: string
  nc_groupId :: id
  nc_type :: NotificationChannelType

record EmailNotification =
  en_notificationConfigId :: id
  en_recipients :: "string list"

record WebhookNotification =
  wn_notificationConfigId :: id
  wn_url :: string
  wn_headers :: json
  wn_payload :: json

text \<open>
  Modelled from the spec: the \<^verbatim>\<open>Notification\<close> model is missing from
  \<^verbatim>\<open>prisma/schema.prisma\<close>; its columns are the ones the send route writes, and its
  status starts as \<open>PENDING\<close>, the initial state of the dispatch state machine of the
  specification.
\<close>

record Notification =
  n_id :: id
  n_serverId :: id
  n_probeId :: "id option"
  n_title :: string
  n_message :: string
  n_level :: Level
  n_details :: jobject
  n_notificationConfigId :: id
  n_status :: NotificationStatus
  n_statusDetails :: "string option"
  n_sentAt :: "nat option"

record db =
  db_users :: "User list"
  db_groups :: "Group list"
  db_groupUsers :: "GroupUser list"
  db_servers :: "Server list"
  db_probes :: "Probe list"
  db_notificationConfigs :: "NotificationConfig list"
  db_emailNotifications :: "EmailNotification list"
  db_webhookNotifications :: "WebhookNotification list"
  db_notifications :: "Notification list"

text \<open>The session of next-auth: \<open>None\<close> when \<^verbatim>\<open>session?.user\<close> is missing.\<close>

record Session =
  session_user_id :: id
  session_user_role :: UserRole

section \<open>Queries\<close>

definition user_findUnique :: "db \<Rightarrow> id \<Rightarrow> User option" where
  "user_findUnique d uid = find (\<lambda>u. user_id u = uid) (db_users d)"

definition user_findByEmail :: "db \<Rightarrow> string \<Rightarrow> User option" where
  "user_findByEmail d e = find (\<lambda>u. user_email u = e) (db_users d)"

definition group_findUnique :: "db \<Rightarrow> id \<Rightarrow> Group option" where
  "group_findUnique d gid = find (\<lambda>g. group_id g = gid) (db_groups d)"

definition server_findUnique :: "db \<Rightarrow> id \<Rightarrow> Server option" where
  "server_findUnique d sid = find (\<lambda>s. server_id s = sid) (db_servers d)"

definition probe_findUnique :: "db \<Rightarrow> id \<Rightarrow> Probe option" where
  "probe_findUnique d pid = find (\<lambda>p. probe_id p = pid) (db_probes d)"

definition notificationConfig_findUnique :: "db \<Rightarrow> id \<Rightarrow> NotificationConfig option" where
  "notificationConfig_findUnique d nid = find (\<lambda>c. nc_id c = nid) (db_notificationConfigs d)"

definition emailConfig_of :: "db \<Rightarrow> id \<Rightarrow> EmailNotification option" where
  "emailConfig_of d nid = find (\<lambda>e. en_notificationConfigId e = nid) (db_emailNotifications d)"

definition webhookConfig_of :: "db \<Rightarrow> id \<Rightarrow> WebhookNotification option" where
  "webhookConfig_of d nid = find (\<lambda>w. wn_notificationConfigId w = nid) (db_webhookNotifications d)"

text \<open>\<^verbatim>\<open>groupUser.findFirst({ where: { userId, groupId } })\<close>\<close>

definition groupUser_findFirst :: "db \<Rightarrow> id \<Rightarrow> id \<Rightarrow> GroupUser option" where
  "groupUser_findFirst d userId groupId =
     find (\<lambda>gu. gu_userId gu = userId \<and> gu_groupId gu = groupId) (db_groupUsers d)"

text \<open>\<^verbatim>\<open>groupUser.findFirst({ where: { userId, groupId, role: "ADMIN" } })\<close>\<close>

definition groupUser_findFirstAdmin :: "db \<Rightarrow> id \<Rightarrow> id \<Rightarrow> GroupUser option" where
  "groupUser_findFirstAdmin d userId groupId =
     find (\<lambda>gu. gu_userId gu = userId \<and> gu_groupId gu = groupId \<and> gu_role gu = GroupRole_ADMIN)
       (db_groupUsers d)"

text \<open>\<^verbatim>\<open>groupUser.findMany({ where: { groupId, role: "ADMIN" } })\<close>\<close>

definition group_admins :: "db \<Rightarrow> id \<Rightarrow> GroupUser list" where
  "group_admins d groupId =
     filter (\<lambda>gu. gu_groupId gu = groupId \<and> gu_role gu = GroupRole_ADMIN) (db_groupUsers d)"

text \<open>\<^verbatim>\<open>groupUser.findMany({ where: { groupId } })\<close>\<close>

definition group_members :: "db \<Rightarrow> id \<Rightarrow> GroupUser list" where
  "group_members d groupId = filter (\<lambda>gu. gu_groupId gu = groupId) (db_groupUsers d)"

section \<open>Writes\<close>

text \<open>
  \<^verbatim>\<open>user.create\<close>: the primary key and the email are unique. \<^verbatim>\<open>group.create\<close>: the
  primary key is unique. A rejected create throws and writes nothing.
\<close>

definition user_create :: "db \<Rightarrow> User \<Rightarrow> db option" where
  "user_create d row =
     (if user_findUnique d (user_id row) \<noteq> None then None
      else if user_findByEmail d (user_email row) \<noteq> None then None
      else Some (d\<lparr>db_users := db_users d @ [row]\<rparr>))"

definition group_create :: "db \<Rightarrow> Group \<Rightarrow> db option" where
  "group_create d row =
     (if group_findUnique d (group_id row) \<noteq> None then None
      else Some (d\<lparr>db_groups := db_groups d @ [row]\<rparr>))"

text \<open>
  \<^verbatim>\<open>user.update({ where: { id }, data })\<close>: throws when no row has the id.
\<close>

definition user_update :: "db \<Rightarrow> id \<Rightarrow> (User \<Rightarrow> User) \<Rightarrow> db option" where
  "user_update d uid f =
     (if user_findUnique d uid = None then None
      else Some (d\<lparr>db_users := map (\<lambda>u. if user_id u = uid then f u else u) (db_users d)\<rparr>))"

text \<open>
  \<^verbatim>\<open>groupUser.create\<close>. The schema rejects the row when the pair (userId, groupId) is
  already present (\<^verbatim>\<open>@@unique\<close>) and when the user or the group it references does
  not exist; the call then throws and nothing is written.
\<close>

definition groupUser_create :: "db \<Rightarrow> GroupUser \<Rightarrow> db option" where
  "groupUser_create d row =
     (if groupUser_findFirst d (gu_userId row) (gu_groupId row) \<noteq> None then None
      else if user_findUnique d (gu_userId row) = None then None
      else if group_findUnique d (gu_groupId row) = None then None
      else Some (d\<lparr>db_groupUsers := db_groupUsers d @ [row]\<rparr>))"

text \<open>
  \<^verbatim>\<open>Promise.all(rows.map(row => prisma.groupUser.create(row)))\<close>: every create is
  issued, the ones the schema accepts are written, and the whole expression throws when
  at least one of them was rejected. The result is the database after the writes and
  whether all of them were accepted.
\<close>

fun groupUser_createAll :: "db \<Rightarrow> GroupUser list \<Rightarrow> db \<times> bool" where
  "groupUser_createAll d [] = (d, True)"
| "groupUser_createAll d (row # rows) =
     (case groupUser_create d row of
        None \<Rightarrow> (fst (groupUser_createAll d rows), False)
      | Some d' \<Rightarrow> groupUser_createAll d' rows)"

text \<open>Writing back the row that was read: the first occurrence of \<open>old\<close> becomes \<open>new\<close>.\<close>

fun replace_row :: "'a \<Rightarrow> 'a \<Rightarrow> 'a list \<Rightarrow> 'a list" where
  "replace_row old new [] = []"
| "replace_row old new (x # xs) = (if x = old then new # xs else x # replace_row old new xs)"

definition groupUser_update :: "db \<Rightarrow> GroupUser \<Rightarrow> GroupRole \<Rightarrow> db" where
  "groupUser_update d member role =
     d\<lparr>db_groupUsers := replace_row member (member\<lparr>gu_role := role\<rparr>) (db_groupUsers d)\<rparr>"

definition groupUser_delete :: "db \<Rightarrow> GroupUser \<Rightarrow> db" where
  "groupUser_delete d member = d\<lparr>db_groupUsers := remove1 member (db_groupUsers d)\<rparr>"

text \<open>\<^verbatim>\<open>groupUser.deleteMany({ where: { userId } })\<close>\<close>

definition groupUser_deleteMany :: "db \<Rightarrow> id \<Rightarrow> db" where
  "groupUser_deleteMany d userId =
     d\<lparr>db_groupUsers := filter (\<lambda>gu. gu_userId gu \<noteq> userId) (db_groupUsers d)\<rparr>"


section \<open>Request validation\<close>

text \<open>
  The zod schemas. An object schema accepts an object and drops the keys it does not
  declare; an optional key may be absent. The format checks of zod itself
  (\<^verbatim>\<open>uuid()\<close>, \<^verbatim>\<open>email()\<close>, \<^verbatim>\<open>url()\<close>) belong to the library and are
  parameters.
\<close>

record zod =
  zod_uuid :: "string \<Rightarrow> bool"
  zod_email :: "string \<Rightarrow> bool"
  zod_url :: "string \<Rightarrow> bool"

fun is_object :: "json \<Rightarrow> bool" where
  "is_object (JObj kvs) = True"
| "is_object _ = False"

fun json_field :: "json \<Rightarrow> string \<Rightarrow> json option" where
  "json_field (JObj kvs) k = map_of kvs k"
| "json_field _ k = None"

fun parse_string :: "json \<Rightarrow> string option" where
  "parse_string (JStr s) = Some s"
| "parse_string _ = None"

text \<open>\<^verbatim>\<open>z.string().min(n)\<close>\<close>

definition parse_string_min :: "nat \<Rightarrow> json \<Rightarrow> string option" where
  "parse_string_min n j =
     (case parse_string j of
        None \<Rightarrow> None
      | Some s \<Rightarrow> if n \<le> length s then Some s else None)"

text \<open>A string that passes a format check of the library.\<close>

definition parse_string_format :: "(string \<Rightarrow> bool) \<Rightarrow> json \<Rightarrow> string option" where
  "parse_string_format ok j =
     (case parse_string j of
        None \<Rightarrow> None
      | Some s \<Rightarrow> if ok s then Some s else None)"

fun parse_array :: "(json \<Rightarrow> 'a option) \<Rightarrow> json \<Rightarrow> 'a list option" where
  "parse_array p (JArr xs) = those (map p xs)"
| "parse_array p _ = None"

text \<open>\<^verbatim>\<open>.optional()\<close>: an absent key is accepted and gives no value.\<close>

definition optional :: "(json \<Rightarrow> 'a option) \<Rightarrow> json option \<Rightarrow> 'a option option" where
  "optional p v = (case v of None \<Rightarrow> Some None | Some j \<Rightarrow> map_option Some (p j))"

definition required :: "(json \<Rightarrow> 'a option) \<Rightarrow> json option \<Rightarrow> 'a option" where
  "required p v = (case v of None \<Rightarrow> None | Some j \<Rightarrow> p j)"

fun parse_GroupRole :: "json \<Rightarrow> GroupRole option" where
  "parse_GroupRole (JStr s) =
     (if s = ''MEMBER'' then Some GroupRole_MEMBER
      else if s = ''ADMIN'' then Some GroupRole_ADMIN
      else None)"
| "parse_GroupRole _ = None"

fun parse_UserRole :: "json \<Rightarrow> UserRole option" where
  "parse_UserRole (JStr s) =
     (if s = ''USER'' then Some USER
      else if s = ''ADMIN'' then Some ADMIN
      else if s = ''SUPER_ADMIN'' then Some SUPER_ADMIN
      else None)"
| "parse_UserRole _ = None"

fun parse_Level :: "json \<Rightarrow> Level option" where
  "parse_Level (JStr s) =
     (if s = ''INFO'' then Some INFO
      else if s = ''WARNING'' then Some WARNING
      else if s = ''ERROR'' then Some ERROR
      else None)"
| "parse_Level _ = None"

text \<open>\<^verbatim>\<open>z.object({ role: z.enum(["MEMBER", "ADMIN"]) })\<close>\<close>

definition updateMemberSchema :: "json \<Rightarrow> GroupRole option" where
  "updateMemberSchema body = required parse_GroupRole (json_field body ''role'')"

text \<open>\<^verbatim>\<open>z.object({ id: z.string().uuid(), role: z.enum(["MEMBER", "ADMIN"]) })\<close>\<close>

definition parse_member :: "zod \<Rightarrow> json \<Rightarrow> (id \<times> GroupRole) option" where
  "parse_member z j =
     do {
       uid \<leftarrow> required (parse_string_format (zod_uuid z)) (json_field j ''id'');
       role \<leftarrow> required parse_GroupRole (json_field j ''role'');
       Some (uid, role)
     }"

text \<open>\<^verbatim>\<open>addMembersSchema = z.object({ users: z.array(...) })\<close>\<close>

definition addMembersSchema :: "zod \<Rightarrow> json \<Rightarrow> (id \<times> GroupRole) list option" where
  "addMembersSchema z body = required (parse_array (parse_member z)) (json_field body ''users'')"

text \<open>\<^verbatim>\<open>registerSchema\<close>\<close>

record register_input =
  ri_name :: string
  ri_email :: string
  ri_password :: string

definition registerSchema :: "zod \<Rightarrow> json \<Rightarrow> register_input option" where
  "registerSchema z body =
     do {
       name \<leftarrow> required (parse_string_min 3) (json_field body ''name'');
       email \<leftarrow> required (parse_string_format (zod_email z)) (json_field body ''email'');
       password \<leftarrow> required (parse_string_min 8) (json_field body ''password'');
       Some \<lparr>ri_name = name, ri_email = email, ri_password = password\<rparr>
     }"

text \<open>\<^verbatim>\<open>groupSchema\<close> of the group collection route\<close>

definition groupSchema :: "json \<Rightarrow> (string \<times> string option) option" where
  "groupSchema body =
     do {
       name \<leftarrow> required (parse_string_min 1) (json_field body ''name'');
       description \<leftarrow> optional parse_string (json_field body ''description'');
       Some (name, description)
     }"

text \<open>\<^verbatim>\<open>updateUserSchema\<close>: every key is optional, the body must still be an object.\<close>

record update_user_input =
  uu_name :: "string option"
  uu_email :: "string option"
  uu_password :: "string option"
  uu_role :: "UserRole option"
  uu_groups :: "(id \<times> GroupRole) list option"

definition updateUserSchema :: "zod \<Rightarrow> json \<Rightarrow> update_user_input option" where
  "updateUserSchema z body =
     (if \<not> is_object body then None
      else do {
        name \<leftarrow> optional (parse_string_min 1) (json_field body ''name'');
        email \<leftarrow> optional (parse_string_format (zod_email z)) (json_field body ''email'');
        password \<leftarrow> optional (parse_string_min 8) (json_field body ''password'');
        role \<leftarrow> optional parse_UserRole (json_field body ''role'');
        groups \<leftarrow> optional (parse_array (parse_member z)) (json_field body ''groups'');
        Some \<lparr>uu_name = name, uu_email = email, uu_password = password, uu_role = role,
              uu_groups = groups\<rparr>
      })"

section \<open>Group members: \<^verbatim>\<open>api/groups/[id]/members\<close>\<close>

text \<open>
  \<^verbatim>\<open>checkGroupAdmin(groupId, userId)\<close>: the global role is read from the user table, not
  from the session.
\<close>

definition checkGroupAdmin :: "db \<Rightarrow> id \<Rightarrow> id \<Rightarrow> bool" where
  "checkGroupAdmin d groupId userId =
     (if map_option user_role (user_findUnique d userId) = Some SUPER_ADMIN then True
      else groupUser_findFirstAdmin d userId groupId \<noteq> None)"

text \<open>
  The guard both member routes share: the target is a SUPER_ADMIN and the caller, read
  again from the user table, is not.
\<close>

definition targets_super_admin :: "db \<Rightarrow> Session \<Rightarrow> User \<Rightarrow> bool" where
  "targets_super_admin d s target =
     (user_role target = SUPER_ADMIN \<and>
      map_option user_role (user_findUnique d (session_user_id s)) \<noteq> Some SUPER_ADMIN)"

text \<open>
  \<^verbatim>\<open>PUT api/groups/[id]/members/[userId]\<close>. The body is \<open>None\<close> when the request does
  not carry JSON (\<^verbatim>\<open>request.json()\<close> throws). The member is read with its user;
  \<^verbatim>\<open>member.user.role\<close> throws when the user row is missing.
\<close>

definition PUT_member ::
  "db \<Rightarrow> Session option \<Rightarrow> id \<Rightarrow> id \<Rightarrow> json option \<Rightarrow> (nat \<times> GroupUser option) \<times> db" where
  "PUT_member d session groupId memberId body =
     (case session of
        None \<Rightarrow> ((401, None), d)
      | Some s \<Rightarrow>
          if \<not> checkGroupAdmin d groupId (session_user_id s) then ((403, None), d)
          else (case body of
            None \<Rightarrow> ((500, None), d)
          | Some b \<Rightarrow>
              (case updateMemberSchema b of
                 None \<Rightarrow> ((400, None), d)
               | Some role \<Rightarrow>
                   (case groupUser_findFirst d memberId groupId of
                      None \<Rightarrow> ((404, None), d)
                    | Some member \<Rightarrow>
                        (case user_findUnique d memberId of
                           None \<Rightarrow> ((500, None), d)
                         | Some target \<Rightarrow>
                             if targets_super_admin d s target then ((403, None), d)
                             else if gu_role member = GroupRole_ADMIN \<and> role = GroupRole_MEMBER
                                     \<and> length (group_admins d groupId) = 1
                               then ((400, None), d)
                             else ((200, Some (member\<lparr>gu_role := role\<rparr>)),
                                   groupUser_update d member role))))))"

text \<open>\<^verbatim>\<open>DELETE api/groups/[id]/members/[userId]\<close>\<close>

definition DELETE_member ::
  "db \<Rightarrow> Session option \<Rightarrow> id \<Rightarrow> id \<Rightarrow> nat \<times> db" where
  "DELETE_member d session groupId memberId =
     (case session of
        None \<Rightarrow> (401, d)
      | Some s \<Rightarrow>
          if \<not> checkGroupAdmin d groupId (session_user_id s) then (403, d)
          else (case groupUser_findFirst d memberId groupId of
                  None \<Rightarrow> (404, d)
                | Some member \<Rightarrow>
                    (case user_findUnique d memberId of
                       None \<Rightarrow> (500, d)
                     | Some target \<Rightarrow>
                         if targets_super_admin d s target then (403, d)
                         else if gu_role member = GroupRole_ADMIN
                                 \<and> length (group_admins d groupId) = 1
                           then (400, d)
                         else (200, groupUser_delete d member))))"

text \<open>
  \<^verbatim>\<open>POST api/groups/[id]/members\<close>. \<open>newUsers_of\<close> is the filter that keeps the users
  who are not members yet, \<open>new_rows\<close> the rows the route creates for them. The response
  carries the rows that were created.
\<close>

definition newUsers_of :: "db \<Rightarrow> id \<Rightarrow> (id \<times> GroupRole) list \<Rightarrow> (id \<times> GroupRole) list" where
  "newUsers_of d groupId users =
     (let existingUserIds = map gu_userId (group_members d groupId)
      in filter (\<lambda>u. fst u \<notin> set existingUserIds) users)"

definition new_rows :: "id \<Rightarrow> (id \<times> GroupRole) list \<Rightarrow> GroupUser list" where
  "new_rows groupId newUsers =
     map (\<lambda>u. \<lparr>gu_userId = fst u, gu_groupId = groupId, gu_role = snd u\<rparr>) newUsers"

definition POST_members ::
  "zod \<Rightarrow> db \<Rightarrow> Session option \<Rightarrow> id \<Rightarrow> json option
     \<Rightarrow> (nat \<times> GroupUser list) \<times> db" where
  "POST_members z d session groupId body =
     (case session of
        None \<Rightarrow> ((401, []), d)
      | Some s \<Rightarrow>
          if \<not> checkGroupAdmin d groupId (session_user_id s) then ((403, []), d)
          else (case body of
            None \<Rightarrow> ((500, []), d)
          | Some b \<Rightarrow>
              (case addMembersSchema z b of
                 None \<Rightarrow> ((400, []), d)
               | Some users \<Rightarrow>
                   (case group_findUnique d groupId of
                      None \<Rightarrow> ((404, []), d)
                    | Some g \<Rightarrow>
                        let newUsers = newUsers_of d groupId users
                        in if length newUsers = 0 then ((400, []), d)
                           else let r = groupUser_createAll d (new_rows groupId newUsers)
                                in if snd r then ((201, new_rows groupId newUsers), fst r)
                                   else ((500, []), fst r)))))"

section \<open>Access checks and listings\<close>

text \<open>\<^verbatim>\<open>checkServerAccess(userId, serverId, superAdmin)\<close> of the probe route\<close>

definition checkServerAccess :: "db \<Rightarrow> id \<Rightarrow> id \<Rightarrow> bool \<Rightarrow> bool" where
  "checkServerAccess d userId serverId superAdmin =
     (if superAdmin then True
      else (case server_findUnique d serverId of
              None \<Rightarrow> False
            | Some server \<Rightarrow>
                let serverGroupIds = server_groups server;
                    userGroupsCount =
                      length (filter (\<lambda>gu. gu_userId gu = userId \<and> gu_groupId gu \<in> set serverGroupIds)
                                (db_groupUsers d))
                in userGroupsCount > 0))"

text \<open>
  \<^verbatim>\<open>GET\<close> of the probes of a server: the access check is the one of the server, and
  the answer holds every probe of the server. The groups a probe is attached to (the
  relation \<^verbatim>\<open>Probe.groups\<close>, written when the probe is created) are not read.
\<close>

definition GET_probes :: "db \<Rightarrow> Session option \<Rightarrow> id \<Rightarrow> nat \<times> Probe list" where
  "GET_probes d session serverId =
     (case session of
        None \<Rightarrow> (401, [])
      | Some s \<Rightarrow>
          if \<not> checkServerAccess d (session_user_id s) serverId (session_user_role s = SUPER_ADMIN)
          then (403, [])
          else (200, filter (\<lambda>p. probe_serverId p = serverId) (db_probes d)))"

text \<open>\<^verbatim>\<open>checkNotificationAccess(notificationId, userId, isSuperAdmin)\<close>\<close>

definition checkNotificationAccess :: "db \<Rightarrow> id \<Rightarrow> id \<Rightarrow> bool \<Rightarrow> bool" where
  "checkNotificationAccess d notificationId userId isSuperAdmin =
     (if isSuperAdmin then True
      else (case notificationConfig_findUnique d notificationId of
              None \<Rightarrow> False
            | Some notificationConfig \<Rightarrow>
                groupUser_findFirst d userId (nc_groupId notificationConfig) \<noteq> None))"

text \<open>\<^verbatim>\<open>GET api/notifications/[id]\<close>\<close>

definition GET_notification ::
  "db \<Rightarrow> Session option \<Rightarrow> id \<Rightarrow> nat \<times> NotificationConfig option" where
  "GET_notification d session notificationId =
     (case session of
        None \<Rightarrow> (401, None)
      | Some s \<Rightarrow>
          if \<not> checkNotificationAccess d notificationId (session_user_id s)
                 (session_user_role s = SUPER_ADMIN)
          then (403, None)
          else (case notificationConfig_findUnique d notificationId of
                  None \<Rightarrow> (404, None)
                | Some c \<Rightarrow> (200, Some c)))"

text \<open>
  \<^verbatim>\<open>checkGroupAccess(groupId, userId, requireAdmin)\<close> of \<^verbatim>\<open>api/groups/[id]\<close>: the
  global role is read from the user table.
\<close>

definition checkGroupAccess :: "db \<Rightarrow> id \<Rightarrow> id \<Rightarrow> bool \<Rightarrow> bool" where
  "checkGroupAccess d groupId userId requireAdmin =
     (if map_option user_role (user_findUnique d userId) = Some SUPER_ADMIN then True
      else if requireAdmin then groupUser_findFirstAdmin d userId groupId \<noteq> None
      else groupUser_findFirst d userId groupId \<noteq> None)"

text \<open>\<^verbatim>\<open>GET api/groups/[id]\<close>\<close>

definition GET_group :: "db \<Rightarrow> Session option \<Rightarrow> id \<Rightarrow> nat \<times> Group option" where
  "GET_group d session groupId =
     (case session of
        None \<Rightarrow> (401, None)
      | Some s \<Rightarrow>
          if \<not> checkGroupAccess d groupId (session_user_id s) False then (403, None)
          else (case group_findUnique d groupId of
                  None \<Rightarrow> (404, None)
                | Some g \<Rightarrow> (200, Some g)))"





section \<open>Registration, group creation, user update\<close>

text \<open>
  \<^verbatim>\<open>POST\<close> of the public registration route. \<open>hash\<close> is \<^verbatim>\<open>bcrypt.hash\<close>; the two
  identifiers are the ones \<^verbatim>\<open>uuid()\<close> draws for the user and for the default group.
  The response carries the created user (without its password column) and
  \<^verbatim>\<open>isFirstUser\<close>.
\<close>

definition POST_register ::
  "zod \<Rightarrow> (string \<Rightarrow> string) \<Rightarrow> id \<Rightarrow> id \<Rightarrow> db \<Rightarrow> json option
     \<Rightarrow> (nat \<times> (User \<times> bool) option) \<times> db" where
  "POST_register z hash new_user_id new_group_id d body =
     (case body of
        None \<Rightarrow> ((500, None), d)
      | Some b \<Rightarrow>
          (case registerSchema z b of
             None \<Rightarrow> ((400, None), d)
           | Some inp \<Rightarrow>
               if user_findByEmail d (ri_email inp) \<noteq> None then ((409, None), d)
               else
                 let userCount = length (db_users d);
                     isFirstUser = (userCount = 0);
                     user = \<lparr>user_id = new_user_id, user_email = ri_email inp,
                             user_name = ri_name inp, user_password = hash (ri_password inp),
                             user_role = (if isFirstUser then SUPER_ADMIN else USER)\<rparr>
                 in (case user_create d user of
                       None \<Rightarrow> ((500, None), d)
                     | Some d1 \<Rightarrow>
                         if isFirstUser then
                           (case group_create d1
                                   \<lparr>group_id = new_group_id, group_name = ''Groupe principal'',
                                    group_description =
                                      ''Groupe par defaut cree a l'initialisation du systeme''\<rparr> of
                              None \<Rightarrow> ((500, None), d1)
                            | Some d2 \<Rightarrow>
                                (case groupUser_create d2
                                        \<lparr>gu_userId = new_user_id, gu_groupId = new_group_id,
                                         gu_role = GroupRole_ADMIN\<rparr> of
                                   None \<Rightarrow> ((500, None), d2)
                                 | Some d3 \<Rightarrow> ((201, Some (user, isFirstUser)), d3)))
                         else ((201, Some (user, isFirstUser)), d1))))"

text \<open>\<^verbatim>\<open>POST api/groups\<close>: the creator becomes ADMIN of the new group.\<close>

definition POST_groups ::
  "id \<Rightarrow> db \<Rightarrow> Session option \<Rightarrow> json option \<Rightarrow> (nat \<times> Group option) \<times> db" where
  "POST_groups new_group_id d session body =
     (case session of
        None \<Rightarrow> ((401, None), d)
      | Some s \<Rightarrow>
          if session_user_role s \<noteq> SUPER_ADMIN \<and> session_user_role s \<noteq> ADMIN
          then ((403, None), d)
          else (case body of
            None \<Rightarrow> ((500, None), d)
          | Some b \<Rightarrow>
              (case groupSchema b of
                 None \<Rightarrow> ((400, None), d)
               | Some (name, description) \<Rightarrow>
                   let group = \<lparr>group_id = new_group_id, group_name = name,
                                group_description = (case description of None \<Rightarrow> [] | Some t \<Rightarrow> t)\<rparr>
                   in (case group_create d group of
                         None \<Rightarrow> ((500, None), d)
                       | Some d1 \<Rightarrow>
                           (case groupUser_create d1
                                   \<lparr>gu_userId = session_user_id s, gu_groupId = new_group_id,
                                    gu_role = GroupRole_ADMIN\<rparr> of
                              None \<Rightarrow> ((500, None), d1)
                            | Some d2 \<Rightarrow> ((201, Some group), d2))))))"

text \<open>A JavaScript string used as a condition: present and not empty.\<close>

definition truthy_string :: "string option \<Rightarrow> bool" where
  "truthy_string v = (case v of None \<Rightarrow> False | Some t \<Rightarrow> t \<noteq> [])"

text \<open>
  \<^verbatim>\<open>PUT api/users/[id]\<close>. The memberships of the user are replaced when the body has
  \<^verbatim>\<open>groups\<close> and the session is a SUPER_ADMIN.
\<close>

definition PUT_user ::
  "zod \<Rightarrow> (string \<Rightarrow> string) \<Rightarrow> db \<Rightarrow> Session option \<Rightarrow> id \<Rightarrow> json option
     \<Rightarrow> (nat \<times> User option) \<times> db" where
  "PUT_user z hash d session userId body =
     (case session of
        None \<Rightarrow> ((401, None), d)
      | Some s \<Rightarrow>
          if session_user_role s \<noteq> SUPER_ADMIN \<and> session_user_id s \<noteq> userId
          then ((403, None), d)
          else (case body of
            None \<Rightarrow> ((500, None), d)
          | Some b \<Rightarrow>
              (case updateUserSchema z b of
                 None \<Rightarrow> ((400, None), d)
               | Some inp \<Rightarrow>
                   let isSelfEdit = (session_user_id s = userId);
                       finalRole = (if isSelfEdit then None else uu_role inp)
                   in if truthy_string (uu_email inp) \<and>
                         find (\<lambda>u. Some (user_email u) = uu_email inp \<and> user_id u \<noteq> userId)
                           (db_users d) \<noteq> None
                      then ((400, None), d)
                      else
                        let updateData =
                              (\<lambda>u. u\<lparr>user_name := (if truthy_string (uu_name inp)
                                                       then the (uu_name inp) else user_name u),
                                      user_email := (if truthy_string (uu_email inp)
                                                       then the (uu_email inp) else user_email u),
                                      user_password := (if truthy_string (uu_password inp)
                                                       then hash (the (uu_password inp))
                                                       else user_password u),
                                      user_role := (case finalRole of None \<Rightarrow> user_role u
                                                    | Some r \<Rightarrow> r)\<rparr>)
                        in (case user_update d userId updateData of
                              None \<Rightarrow> ((500, None), d)
                            | Some d1 \<Rightarrow>
                                let updatedUser = user_findUnique d1 userId
                                in (case uu_groups inp of
                                      Some groups \<Rightarrow>
                                        if session_user_role s = SUPER_ADMIN then
                                          let d2 = groupUser_deleteMany d1 userId;
                                              r = groupUser_createAll d2
                                                    (map (\<lambda>g. \<lparr>gu_userId = userId, gu_groupId = fst g,
                                                               gu_role = snd g\<rparr>) groups)
                                          in if snd r then ((200, updatedUser), fst r)
                                             else ((500, None), fst r)
                                        else ((200, updatedUser), d1)
                                    | None \<Rightarrow> ((200, updatedUser), d1))))))"

section \<open>Update of a notification configuration: \<^verbatim>\<open>api/notifications/[id]\<close>\<close>

datatype notification_config_input =
    EmailInput "string list"
  | WebhookInput string "json option" "json option"

record notification_input =
  ni_name :: string
  ni_groupId :: id
  ni_config :: notification_config_input

text \<open>\<^verbatim>\<open>z.record(z.string())\<close>\<close>

fun parse_record_of_strings :: "json \<Rightarrow> json option" where
  "parse_record_of_strings (JObj kvs) =
     (if list_all (\<lambda>kv. parse_string (snd kv) \<noteq> None) kvs then Some (JObj kvs) else None)"
| "parse_record_of_strings _ = None"

text \<open>\<^verbatim>\<open>z.array(z.string().email()).min(1)\<close>\<close>

definition parse_recipients :: "zod \<Rightarrow> json \<Rightarrow> string list option" where
  "parse_recipients z j =
     (case parse_array (parse_string_format (zod_email z)) j of
        None \<Rightarrow> None
      | Some rs \<Rightarrow> if 1 \<le> length rs then Some rs else None)"

text \<open>
  \<^verbatim>\<open>notificationSchema\<close>, a union discriminated by \<^verbatim>\<open>type\<close>. \<^verbatim>\<open>z.any()\<close> accepts
  every value.
\<close>

definition notificationSchema :: "zod \<Rightarrow> json \<Rightarrow> notification_input option" where
  "notificationSchema z body =
     do {
       ty \<leftarrow> required parse_string (json_field body ''type'');
       name \<leftarrow> required (parse_string_min 1) (json_field body ''name'');
       groupId \<leftarrow> required (parse_string_format (zod_uuid z)) (json_field body ''groupId'');
       config \<leftarrow> json_field body ''config'';
       if ty = ''EMAIL'' then
         do {
           recipients \<leftarrow> required (parse_recipients z) (json_field config ''recipients'');
           Some \<lparr>ni_name = name, ni_groupId = groupId, ni_config = EmailInput recipients\<rparr>
         }
       else if ty = ''WEBHOOK'' then
         do {
           url \<leftarrow> required (parse_string_format (zod_url z)) (json_field config ''url'');
           headers \<leftarrow> optional parse_record_of_strings (json_field config ''headers'');
           payload \<leftarrow> optional Some (json_field config ''payload'');
           Some \<lparr>ni_name = name, ni_groupId = groupId,
                 ni_config = WebhookInput url headers payload\<rparr>
         }
       else None
     }"

definition input_type :: "notification_config_input \<Rightarrow> NotificationChannelType" where
  "input_type c = (case c of EmailInput rs \<Rightarrow> EMAIL | WebhookInput u h p \<Rightarrow> WEBHOOK)"

text \<open>\<^verbatim>\<open>checkGroupAdminAccess(notificationId, userId, isSuperAdmin)\<close>\<close>

definition checkGroupAdminAccess :: "db \<Rightarrow> id \<Rightarrow> id \<Rightarrow> bool \<Rightarrow> bool" where
  "checkGroupAdminAccess d notificationId userId isSuperAdmin =
     (if isSuperAdmin then True
      else (case notificationConfig_findUnique d notificationId of
              None \<Rightarrow> False
            | Some notificationConfig \<Rightarrow>
                groupUser_findFirstAdmin d userId (nc_groupId notificationConfig) \<noteq> None))"

text \<open>
  The writes of the handler, by name. Each is a statement of its own that is awaited
  before the next one starts; the handler opens no transaction. A write throws when
  the database refuses it: \<open>fails\<close> says which writes the database refuses during the
  call, and the foreign key of \<^verbatim>\<open>NotificationConfig.groupId\<close> refuses a group that
  does not exist.
\<close>

datatype db_write =
    notificationConfig_update
  | webhookNotification_delete
  | emailNotification_delete
  | emailNotification_update
  | emailNotification_create
  | webhookNotification_update
  | webhookNotification_create

text \<open>
  The outcome of a sequence of writes: \<open>Inl\<close> when one of them threw, with the database
  as the writes before it left it, \<open>Inr\<close> when all were made.
\<close>

definition attempt :: "(db_write \<Rightarrow> bool) \<Rightarrow> db_write \<Rightarrow> (db \<Rightarrow> db option) \<Rightarrow> db \<Rightarrow> db + db" where
  "attempt fails w f d =
     (if fails w then Inl d
      else (case f d of None \<Rightarrow> Inl d | Some d' \<Rightarrow> Inr d'))"

definition and_then :: "db + db \<Rightarrow> (db \<Rightarrow> db + db) \<Rightarrow> db + db" where
  "and_then r k = (case r of Inl d \<Rightarrow> Inl d | Inr d \<Rightarrow> k d)"

definition set_notificationConfig :: "id \<Rightarrow> string \<Rightarrow> id \<Rightarrow> NotificationChannelType \<Rightarrow> db \<Rightarrow> db option" where
  "set_notificationConfig nid name groupId ty d =
     (if group_findUnique d groupId = None then None
      else Some (d\<lparr>db_notificationConfigs :=
                    map (\<lambda>c. if nc_id c = nid
                              then c\<lparr>nc_name := name, nc_groupId := groupId, nc_type := ty\<rparr>
                              else c)
                      (db_notificationConfigs d)\<rparr>))"

definition delete_webhookNotification :: "id \<Rightarrow> db \<Rightarrow> db option" where
  "delete_webhookNotification nid d =
     Some (d\<lparr>db_webhookNotifications :=
               filter (\<lambda>w. wn_notificationConfigId w \<noteq> nid) (db_webhookNotifications d)\<rparr>)"

definition delete_emailNotification :: "id \<Rightarrow> db \<Rightarrow> db option" where
  "delete_emailNotification nid d =
     Some (d\<lparr>db_emailNotifications :=
               filter (\<lambda>e. en_notificationConfigId e \<noteq> nid) (db_emailNotifications d)\<rparr>)"

definition set_emailNotification :: "id \<Rightarrow> string list \<Rightarrow> db \<Rightarrow> db option" where
  "set_emailNotification nid recipients d =
     Some (d\<lparr>db_emailNotifications :=
               map (\<lambda>e. if en_notificationConfigId e = nid then e\<lparr>en_recipients := recipients\<rparr>
                         else e)
                 (db_emailNotifications d)\<rparr>)"

definition create_emailNotification :: "id \<Rightarrow> string list \<Rightarrow> db \<Rightarrow> db option" where
  "create_emailNotification nid recipients d =
     (if emailConfig_of d nid \<noteq> None then None
      else Some (d\<lparr>db_emailNotifications := db_emailNotifications d @
                    [\<lparr>en_notificationConfigId = nid, en_recipients = recipients\<rparr>]\<rparr>))"

text \<open>\<^verbatim>\<open>config.headers || {}\<close> and \<^verbatim>\<open>config.payload || {}\<close>\<close>

fun js_truthy :: "json \<Rightarrow> bool" where
  "js_truthy JUndefined = False"
| "js_truthy JNull = False"
| "js_truthy (JBool b) = b"
| "js_truthy (JNum n) = (n \<noteq> 0)"
| "js_truthy (JStr s) = (s \<noteq> [])"
| "js_truthy _ = True"

definition or_empty_object :: "json option \<Rightarrow> json" where
  "or_empty_object v =
     (case v of None \<Rightarrow> JObj [] | Some j \<Rightarrow> if js_truthy j then j else JObj [])"

definition set_webhookNotification :: "id \<Rightarrow> string \<Rightarrow> json \<Rightarrow> json \<Rightarrow> db \<Rightarrow> db option" where
  "set_webhookNotification nid url headers payload d =
     Some (d\<lparr>db_webhookNotifications :=
               map (\<lambda>w. if wn_notificationConfigId w = nid
                         then w\<lparr>wn_url := url, wn_headers := headers, wn_payload := payload\<rparr>
                         else w)
                 (db_webhookNotifications d)\<rparr>)"

definition create_webhookNotification :: "id \<Rightarrow> string \<Rightarrow> json \<Rightarrow> json \<Rightarrow> db \<Rightarrow> db option" where
  "create_webhookNotification nid url headers payload d =
     (if webhookConfig_of d nid \<noteq> None then None
      else Some (d\<lparr>db_webhookNotifications := db_webhookNotifications d @
                    [\<lparr>wn_notificationConfigId = nid, wn_url = url, wn_headers = headers,
                      wn_payload = payload\<rparr>]\<rparr>))"

text \<open>
  The writes of \<^verbatim>\<open>PUT\<close> after the existing configuration was read, in the order of
  the source; \<open>existingConfig\<close> and its two sub-configurations are the values read
  before the first write.
\<close>

definition PUT_notification_writes ::
  "(db_write \<Rightarrow> bool) \<Rightarrow> id \<Rightarrow> notification_input \<Rightarrow> NotificationConfig
     \<Rightarrow> EmailNotification option \<Rightarrow> WebhookNotification option \<Rightarrow> db \<Rightarrow> db + db" where
  "PUT_notification_writes fails nid inp existingConfig existingEmail existingWebhook d =
     and_then
       (attempt fails notificationConfig_update
          (set_notificationConfig nid (ni_name inp) (ni_groupId inp) (input_type (ni_config inp))) d)
       (\<lambda>d1.
          case ni_config inp of
            EmailInput recipients \<Rightarrow>
              and_then
                (if nc_type existingConfig = WEBHOOK \<and> existingWebhook \<noteq> None
                 then attempt fails webhookNotification_delete (delete_webhookNotification nid) d1
                 else Inr d1)
                (\<lambda>d2.
                   if existingEmail \<noteq> None
                   then attempt fails emailNotification_update
                          (set_emailNotification nid recipients) d2
                   else attempt fails emailNotification_create
                          (create_emailNotification nid recipients) d2)
          | WebhookInput url headers payload \<Rightarrow>
              and_then
                (if nc_type existingConfig = EMAIL \<and> existingEmail \<noteq> None
                 then attempt fails emailNotification_delete (delete_emailNotification nid) d1
                 else Inr d1)
                (\<lambda>d2.
                   if existingWebhook \<noteq> None
                   then attempt fails webhookNotification_update
                          (set_webhookNotification nid url (or_empty_object headers)
                             (or_empty_object payload)) d2
                   else attempt fails webhookNotification_create
                          (create_webhookNotification nid url (or_empty_object headers)
                             (or_empty_object payload)) d2))"

text \<open>\<^verbatim>\<open>PUT api/notifications/[id]\<close>\<close>

definition PUT_notification ::
  "zod \<Rightarrow> (db_write \<Rightarrow> bool) \<Rightarrow> db \<Rightarrow> Session option \<Rightarrow> id \<Rightarrow> json option
     \<Rightarrow> (nat \<times> NotificationConfig option) \<times> db" where
  "PUT_notification z fails d session notificationId body =
     (case session of
        None \<Rightarrow> ((401, None), d)
      | Some s \<Rightarrow>
          if \<not> checkGroupAdminAccess d notificationId (session_user_id s)
                 (session_user_role s = SUPER_ADMIN)
          then ((403, None), d)
          else (case body of
            None \<Rightarrow> ((500, None), d)
          | Some b \<Rightarrow>
              (case notificationSchema z b of
                 None \<Rightarrow> ((400, None), d)
               | Some inp \<Rightarrow>
                   (case notificationConfig_findUnique d notificationId of
                      None \<Rightarrow> ((404, None), d)
                    | Some existingConfig \<Rightarrow>
                        (case PUT_notification_writes fails notificationId inp existingConfig
                                (emailConfig_of d notificationId)
                                (webhookConfig_of d notificationId) d of
                           Inl d' \<Rightarrow> ((500, None), d')
                         | Inr d' \<Rightarrow>
                             ((200, notificationConfig_findUnique d' notificationId), d'))))))"

section \<open>Creation of a probe: \<^verbatim>\<open>api/servers/[serverId]/probes\<close>\<close>








section \<open>Dispatch: \<^verbatim>\<open>api/notifications/send\<close>\<close>

text \<open>
  A number inside a template string, as the webhook error message prints the status
  code: its decimal digits, most significant first.
\<close>

definition digit_char :: "nat \<Rightarrow> char" where
  "digit_char n = ''0123456789'' ! n"

function decimal_digits :: "nat \<Rightarrow> string \<Rightarrow> string" where
  "decimal_digits n acc =
     (if n < 10 then digit_char n # acc
      else decimal_digits (n div 10) (digit_char (n mod 10) # acc))"
  by pat_completeness auto
termination
  by (relation "measure fst") auto

definition string_of_nat :: "nat \<Rightarrow> string" where
  "string_of_nat n = decimal_digits n []"

fun Level_name :: "Level \<Rightarrow> string" where
  "Level_name INFO = ''INFO''"
| "Level_name WARNING = ''WARNING''"
| "Level_name ERROR = ''ERROR''"

text \<open>
  The own enumerable properties of a value, which is what the spread syntax copies:
  the properties of an object, the indices of an array or of a string, nothing for the
  other values.
\<close>

fun own_props :: "json \<Rightarrow> jobject" where
  "own_props (JObj kvs) = kvs"
| "own_props (JArr xs) = zip (map string_of_nat [0..<length xs]) xs"
| "own_props (JStr s) = zip (map string_of_nat [0..<length s]) (map (\<lambda>c. JStr [c]) s)"
| "own_props _ = []"

text \<open>
  \<^verbatim>\<open>{ ...target, ...source }\<close> continued: the properties of the source are assigned
  one after the other; a key the object already has keeps its place and takes the new
  value, a new key goes to the end.
\<close>

definition spread :: "jobject \<Rightarrow> jobject \<Rightarrow> jobject" where
  "spread target source = fold (\<lambda>kv. AList.update (fst kv) (snd kv)) source target"

text \<open>
  \<^verbatim>\<open>JSON.stringify\<close> of an object the handler built: a property whose value is
  \<^verbatim>\<open>undefined\<close> is left out. The values below the top level come from JSON and hold
  no \<^verbatim>\<open>undefined\<close>.
\<close>

definition JSON_stringify :: "jobject \<Rightarrow> jobject" where
  "JSON_stringify obj = filter (\<lambda>kv. snd kv \<noteq> JUndefined) obj"

text \<open>\<^verbatim>\<open>sendNotificationSchema\<close>\<close>

record send_input =
  si_notificationConfigId :: id
  si_serverId :: id
  si_probeId :: "id option"
  si_level :: Level
  si_title :: string
  si_message :: string
  si_details :: "jobject option"

fun parse_object :: "json \<Rightarrow> jobject option" where
  "parse_object (JObj kvs) = Some kvs"
| "parse_object _ = None"

definition sendNotificationSchema :: "zod \<Rightarrow> json \<Rightarrow> send_input option" where
  "sendNotificationSchema z body =
     do {
       notificationConfigId \<leftarrow>
         required (parse_string_format (zod_uuid z)) (json_field body ''notificationConfigId'');
       serverId \<leftarrow> required (parse_string_format (zod_uuid z)) (json_field body ''serverId'');
       probeId \<leftarrow> optional (parse_string_format (zod_uuid z)) (json_field body ''probeId'');
       level \<leftarrow> required parse_Level (json_field body ''level'');
       title \<leftarrow> required (parse_string_min 1) (json_field body ''title'');
       message \<leftarrow> required (parse_string_min 1) (json_field body ''message'');
       details \<leftarrow> optional parse_object (json_field body ''details'');
       Some \<lparr>si_notificationConfigId = notificationConfigId, si_serverId = serverId,
             si_probeId = probeId, si_level = level, si_title = title, si_message = message,
             si_details = details\<rparr>
     }"

text \<open>
  The channel adapters. The mail transport and \<^verbatim>\<open>fetch\<close> are the outside world:
  each is a parameter that answers with an error message (\<open>Inl\<close>, the message of the
  exception it throws) or with its result. The two renderings of the mail body are
  strings built from the same fields and are left out of the mail.
\<close>

record smtp_env =
  SMTP_HOST :: "string option"
  SMTP_PORT :: "string option"
  SMTP_USER :: "string option"
  SMTP_PASS :: "string option"
  SMTP_FROM :: "string option"

record mail =
  mail_from :: string
  mail_to :: string
  mail_subject :: string

fun join :: "string \<Rightarrow> string list \<Rightarrow> string" where
  "join sep [] = []"
| "join sep [x] = x"
| "join sep (x # y # ys) = x @ sep @ join sep (y # ys)"

definition sendEmail ::
  "smtp_env \<Rightarrow> (mail \<Rightarrow> string + json) \<Rightarrow> string list \<Rightarrow> string \<Rightarrow> Level \<Rightarrow> string + json" where
  "sendEmail env sendMail recipients title level =
     (let smtpFrom = (if truthy_string (SMTP_FROM env) then the (SMTP_FROM env)
                      else ''noreply@servmon.app'')
      in if \<not> truthy_string (SMTP_HOST env) \<or> \<not> truthy_string (SMTP_PORT env)
            \<or> \<not> truthy_string (SMTP_USER env) \<or> \<not> truthy_string (SMTP_PASS env)
         then Inl ''Configuration SMTP incomplete''
         else sendMail \<lparr>mail_from = ''\"Monitoring de Serveurs\" <'' @ smtpFrom @ ''>'',
                        mail_to = join '', '' recipients,
                        mail_subject = ''['' @ Level_name level @ ''] '' @ title\<rparr>)"

record fetch_response =
  response_ok :: bool
  response_status :: nat
  response_statusText :: string
  response_json :: "string + json"

text \<open>The object \<^verbatim>\<open>payload\<close> of \<^verbatim>\<open>sendWebhook\<close>: the template, then the notification data.\<close>

definition sendWebhook_payload :: "json \<Rightarrow> jobject \<Rightarrow> jobject" where
  "sendWebhook_payload payloadTemplate notificationData =
     spread (spread [] (own_props payloadTemplate)) notificationData"

definition sendWebhook ::
  "(string \<Rightarrow> jobject \<Rightarrow> jobject \<Rightarrow> string + fetch_response) \<Rightarrow> string \<Rightarrow> json \<Rightarrow> json \<Rightarrow> jobject
     \<Rightarrow> string + json" where
  "sendWebhook fetch url headers payloadTemplate notificationData =
     (case fetch url
             (spread [(''Content-Type'', JStr ''application/json'')] (own_props headers))
             (JSON_stringify (sendWebhook_payload payloadTemplate notificationData)) of
        Inl err \<Rightarrow> Inl err
      | Inr response \<Rightarrow>
          if \<not> response_ok response
          then Inl (''Erreur lors de l'envoi du webhook: ''
                    @ string_of_nat (response_status response) @ '' ''
                    @ response_statusText response)
          else response_json response)"

text \<open>The record \<^verbatim>\<open>notificationData\<close> the route builds for the history and for the adapters.\<close>

definition notificationData ::
  "send_input \<Rightarrow> Server \<Rightarrow> Probe option \<Rightarrow> nat \<Rightarrow> jobject" where
  "notificationData inp server probe now =
     [(''level'', JStr (Level_name (si_level inp))),
      (''title'', JStr (si_title inp)),
      (''message'', JStr (si_message inp)),
      (''serverName'', JStr (server_name server)),
      (''serverId'', JStr (server_id server)),
      (''probeName'', (case probe of None \<Rightarrow> JUndefined | Some p \<Rightarrow> JStr (probe_name p))),
      (''probeId'', (case probe of None \<Rightarrow> JUndefined | Some p \<Rightarrow> JStr (probe_id p))),
      (''timestamp'', JDate now),
      (''details'', JObj (case si_details inp of None \<Rightarrow> [] | Some o' \<Rightarrow> o'))]"

text \<open>
  \<^verbatim>\<open>notification.create\<close>: the primary key is unique; the status is not given and
  takes its default.
\<close>

definition notification_create :: "db \<Rightarrow> Notification \<Rightarrow> db option" where
  "notification_create d row =
     (if n_id row \<in> set (map n_id (db_notifications d)) then None
      else Some (d\<lparr>db_notifications := db_notifications d @ [row]\<rparr>))"

definition notification_update :: "db \<Rightarrow> id \<Rightarrow> (Notification \<Rightarrow> Notification) \<Rightarrow> db" where
  "notification_update d nid f =
     d\<lparr>db_notifications := map (\<lambda>n. if n_id n = nid then f n else n) (db_notifications d)\<rparr>"

text \<open>The inner \<^verbatim>\<open>try\<close> block of the route up to the result of the adapter.\<close>

definition dispatch ::
  "smtp_env \<Rightarrow> (mail \<Rightarrow> string + json)
     \<Rightarrow> (string \<Rightarrow> jobject \<Rightarrow> jobject \<Rightarrow> string + fetch_response)
     \<Rightarrow> NotificationConfig \<Rightarrow> EmailNotification option \<Rightarrow> WebhookNotification option
     \<Rightarrow> send_input \<Rightarrow> jobject \<Rightarrow> string + json" where
  "dispatch env sendMail fetch notificationConfig emailConfig webhookConfig inp data =
     (if nc_type notificationConfig = EMAIL \<and> emailConfig \<noteq> None
      then sendEmail env sendMail (en_recipients (the emailConfig)) (si_title inp) (si_level inp)
      else if nc_type notificationConfig = WEBHOOK \<and> webhookConfig \<noteq> None
      then sendWebhook fetch (wn_url (the webhookConfig))
             (or_empty_object (Some (wn_headers (the webhookConfig))))
             (or_empty_object (Some (wn_payload (the webhookConfig))))
             data
      else Inl ''Type de notification non pris en charge ou configuration incomplete'')"

datatype send_body =
    Send_message
  | Send_error string
  | Send_ok Notification json

text \<open>
  The probe the route reads when the request names one, and the row it creates before
  it calls the adapter.
\<close>

definition send_probe :: "db \<Rightarrow> send_input \<Rightarrow> Probe option" where
  "send_probe d inp =
     (case si_probeId inp of
        None \<Rightarrow> None
      | Some pid \<Rightarrow> if pid \<noteq> [] then probe_findUnique d pid else None)"

definition new_notification :: "id \<Rightarrow> send_input \<Rightarrow> jobject \<Rightarrow> Notification" where
  "new_notification new_id inp data =
     \<lparr>n_id = new_id, n_serverId = si_serverId inp, n_probeId = si_probeId inp,
      n_title = si_title inp, n_message = si_message inp, n_level = si_level inp,
      n_details = data, n_notificationConfigId = si_notificationConfigId inp,
      n_status = PENDING, n_statusDetails = None, n_sentAt = None\<rparr>"

text \<open>
  \<^verbatim>\<open>POST api/notifications/send\<close>. \<open>new_id\<close> is the identifier drawn for the new row,
  \<open>now\<close> and \<open>sent\<close> are the two readings of the clock. The route does not look at the
  session. The response of a successful dispatch embeds the row as it was created.
\<close>

definition POST_send ::
  "zod \<Rightarrow> smtp_env \<Rightarrow> (mail \<Rightarrow> string + json)
     \<Rightarrow> (string \<Rightarrow> jobject \<Rightarrow> jobject \<Rightarrow> string + fetch_response)
     \<Rightarrow> id \<Rightarrow> nat \<Rightarrow> nat \<Rightarrow> db \<Rightarrow> json option \<Rightarrow> (nat \<times> send_body) \<times> db" where
  "POST_send z env sendMail fetch new_id now sent d body =
     (case body of
        None \<Rightarrow> ((500, Send_message), d)
      | Some b \<Rightarrow>
          (case sendNotificationSchema z b of
             None \<Rightarrow> ((400, Send_message), d)
           | Some inp \<Rightarrow>
               (case notificationConfig_findUnique d (si_notificationConfigId inp) of
                  None \<Rightarrow> ((404, Send_message), d)
                | Some notificationConfig \<Rightarrow>
                    (case server_findUnique d (si_serverId inp) of
                       None \<Rightarrow> ((404, Send_message), d)
                     | Some server \<Rightarrow>
                         let probe = send_probe d inp;
                             data = notificationData inp server probe now;
                             notification = new_notification new_id inp data
                         in (case notification_create d notification of
                               None \<Rightarrow> ((500, Send_message), d)
                             | Some d1 \<Rightarrow>
                                 (case dispatch env sendMail fetch notificationConfig
                                         (emailConfig_of d (si_notificationConfigId inp))
                                         (webhookConfig_of d (si_notificationConfigId inp))
                                         inp data of
                                    Inr sendResult \<Rightarrow>
                                      ((200, Send_ok notification sendResult),
                                       notification_update d1 new_id
                                         (\<lambda>n. n\<lparr>n_sentAt := Some sent, n_status := SENT\<rparr>))
                                  | Inl err \<Rightarrow>
                                      ((500, Send_error err),
                                       notification_update d1 new_id
                                         (\<lambda>n. n\<lparr>n_status := FAILED,
                                                n_statusDetails := Some err\<rparr>))))))))"

section \<open>Predicates of the specification\<close>

text \<open>The schema's \<^verbatim>\<open>@@unique([userId, groupId])\<close>.\<close>

definition unique_memberships :: "db \<Rightarrow> bool" where
  "unique_memberships d = distinct (map (\<lambda>gu. (gu_userId gu, gu_groupId gu)) (db_groupUsers d))"

text \<open>The only ADMIN membership of the group belongs to the actor \<open>a\<close>.\<close>

definition sole_admin :: "db \<Rightarrow> id \<Rightarrow> id \<Rightarrow> bool" where
  "sole_admin d groupId a = (map gu_userId (group_admins d groupId) = [a])"

text \<open>
  The invariant of the specification: every group that has a membership has a
  membership with role ADMIN.
\<close>

definition last_admin_invariant :: "db \<Rightarrow> bool" where
  "last_admin_invariant d =
     list_all (\<lambda>gu. group_admins d (gu_groupId gu) \<noteq> []) (db_groupUsers d)"

text \<open>
  The words of the specification: an actor holds a membership in a group; an actor can
  view a resource when it is SUPER_ADMIN or holds a membership in a group attached to
  the resource. The group route reads the global role from the user table.
\<close>

definition member_of :: "db \<Rightarrow> id \<Rightarrow> id \<Rightarrow> bool" where
  "member_of d userId groupId =
     list_ex (\<lambda>gu. gu_userId gu = userId \<and> gu_groupId gu = groupId) (db_groupUsers d)"

definition canView_server :: "db \<Rightarrow> Session \<Rightarrow> Server \<Rightarrow> bool" where
  "canView_server d s sv =
     (session_user_role s = SUPER_ADMIN
      \<or> list_ex (\<lambda>g. member_of d (session_user_id s) g) (server_groups sv))"

definition canView_notificationConfig :: "db \<Rightarrow> Session \<Rightarrow> NotificationConfig \<Rightarrow> bool" where
  "canView_notificationConfig d s c =
     (session_user_role s = SUPER_ADMIN \<or> member_of d (session_user_id s) (nc_groupId c))"

definition canView_group :: "db \<Rightarrow> Session \<Rightarrow> Group \<Rightarrow> bool" where
  "canView_group d s g =
     (map_option user_role (user_findUnique d (session_user_id s)) = Some SUPER_ADMIN
      \<or> member_of d (session_user_id s) (group_id g))"




text \<open>
  The invariant of the specification for one notification configuration: it exists and
  exactly one sub-configuration is stored for it, the one of its declared type.
\<close>

definition email_rows :: "db \<Rightarrow> id \<Rightarrow> EmailNotification list" where
  "email_rows d nid = filter (\<lambda>e. en_notificationConfigId e = nid) (db_emailNotifications d)"

definition webhook_rows :: "db \<Rightarrow> id \<Rightarrow> WebhookNotification list" where
  "webhook_rows d nid = filter (\<lambda>w. wn_notificationConfigId w = nid) (db_webhookNotifications d)"

definition config_consistent :: "db \<Rightarrow> id \<Rightarrow> bool" where
  "config_consistent d nid =
     (case notificationConfig_findUnique d nid of
        None \<Rightarrow> False
      | Some c \<Rightarrow>
          (case nc_type c of
             EMAIL \<Rightarrow> length (email_rows d nid) = 1 \<and> webhook_rows d nid = []
           | WEBHOOK \<Rightarrow> length (webhook_rows d nid) = 1 \<and> email_rows d nid = []))"

definition declared_type :: "db \<Rightarrow> id \<Rightarrow> NotificationChannelType option" where
  "declared_type d nid = map_option nc_type (notificationConfig_findUnique d nid)"

text \<open>The write that creates the sub-configuration of the requested type.\<close>

definition creation_write :: "notification_config_input \<Rightarrow> db_write" where
  "creation_write c =
     (case c of EmailInput rs \<Rightarrow> emailNotification_create
              | WebhookInput u h p \<Rightarrow> webhookNotification_create)"

section \<open>A sample installation\<close>

text \<open>
  Concrete values on which the handlers are evaluated: an installation, sessions,
  request bodies and the outside world of the adapters.
\<close>

text \<open>
  Stand-ins for the format checks of zod and for \<^verbatim>\<open>bcrypt.hash\<close>.
\<close>

definition example_zod :: zod where
  "example_zod = \<lparr>zod_uuid = (\<lambda>s. s \<noteq> []), zod_email = (\<lambda>s. CHR ''@'' \<in> set s),
                  zod_url = (\<lambda>s. s \<noteq> [])\<rparr>"

definition example_hash :: "string \<Rightarrow> string" where
  "example_hash p = ''hash:'' @ p"

text \<open>
  The installation: a SUPER_ADMIN, the group Ops with alice as its only administrator and
  bob as a member, carol who belongs to no group, one server, one probe, an EMAIL and a
  WEBHOOK notification configuration. \<open>empty_db\<close> is the installation before the first
  registration.
\<close>

definition example_db :: db where
  "example_db =
     \<lparr>db_users =
        [\<lparr>user_id = ''u-root'', user_email = ''root@x.com'', user_name = ''root'',
          user_password = ''h1'', user_role = SUPER_ADMIN\<rparr>,
         \<lparr>user_id = ''u-alice'', user_email = ''alice@x.com'', user_name = ''alice'',
          user_password = ''h2'', user_role = USER\<rparr>,
         \<lparr>user_id = ''u-bob'', user_email = ''bob@x.com'', user_name = ''bob'',
          user_password = ''h3'', user_role = USER\<rparr>,
         \<lparr>user_id = ''u-carol'', user_email = ''carol@x.com'', user_name = ''carol'',
          user_password = ''h4'', user_role = USER\<rparr>],
      db_groups = [\<lparr>group_id = ''g-ops'', group_name = ''Ops'', group_description = []\<rparr>],
      db_groupUsers =
        [\<lparr>gu_userId = ''u-alice'', gu_groupId = ''g-ops'', gu_role = GroupRole_ADMIN\<rparr>,
         \<lparr>gu_userId = ''u-bob'', gu_groupId = ''g-ops'', gu_role = GroupRole_MEMBER\<rparr>],
      db_servers =
        [\<lparr>server_id = ''s-web'', server_name = ''web'', server_groups = [''g-ops''],
          server_createdById = ''u-alice''\<rparr>],
      db_probes =
        [\<lparr>probe_id = ''p-http'', probe_name = ''http'', probe_serverId = ''s-web'',
          probe_groups = [''g-ops'']\<rparr>],
      db_notificationConfigs =
        [\<lparr>nc_id = ''cfg1'', nc_name = ''mail'', nc_groupId = ''g-ops'', nc_type = EMAIL\<rparr>,
         \<lparr>nc_id = ''cfg2'', nc_name = ''hook'', nc_groupId = ''g-ops'', nc_type = WEBHOOK\<rparr>],
      db_emailNotifications =
        [\<lparr>en_notificationConfigId = ''cfg1'', en_recipients = [''a@x.com'']\<rparr>],
      db_webhookNotifications =
        [\<lparr>wn_notificationConfigId = ''cfg2'', wn_url = ''https://hook.example/in'',
          wn_headers = JObj [],
          wn_payload = JObj [(''source'', JStr ''srv-mon''), (''level'', JStr ''template'')]\<rparr>],
      db_notifications = []\<rparr>"

definition empty_db :: db where
  "empty_db =
     \<lparr>db_users = [], db_groups = [], db_groupUsers = [], db_servers = [], db_probes = [],
      db_notificationConfigs = [], db_emailNotifications = [], db_webhookNotifications = [],
      db_notifications = []\<rparr>"





text \<open>Sessions.\<close>

definition root_session :: Session where
  "root_session = \<lparr>session_user_id = ''u-root'', session_user_role = SUPER_ADMIN\<rparr>"


definition carol_session :: Session where
  "carol_session = \<lparr>session_user_id = ''u-carol'', session_user_role = USER\<rparr>"

text \<open>Request bodies.\<close>

definition demote_body :: json where
  "demote_body = JObj [(''role'', JStr ''MEMBER'')]"

definition clear_groups_body :: json where
  "clear_groups_body = JObj [(''groups'', JArr [])]"

definition add_members_body :: json where
  "add_members_body =
     JObj [(''users'',
            JArr [JObj [(''id'', JStr ''u-alice''), (''role'', JStr ''ADMIN'')],
                  JObj [(''id'', JStr ''u-carol''), (''role'', JStr ''MEMBER'')]])]"

definition known_members_body :: json where
  "known_members_body =
     JObj [(''users'',
            JArr [JObj [(''id'', JStr ''u-alice''), (''role'', JStr ''ADMIN'')],
                  JObj [(''id'', JStr ''u-bob''), (''role'', JStr ''MEMBER'')]])]"

definition register_body :: json where
  "register_body =
     JObj [(''name'', JStr ''dave''), (''email'', JStr ''dave@x.com''),
           (''password'', JStr ''12345678''), (''role'', JStr ''SUPER_ADMIN'')]"

definition switch_body :: json where
  "switch_body =
     JObj [(''type'', JStr ''WEBHOOK''), (''name'', JStr ''mail''), (''groupId'', JStr ''g-ops''),
           (''config'', JObj [(''url'', JStr ''https://hook.example/new'')])]"

text \<open>
  Which writes the database refuses: none, or the creation of the webhook
  sub-configuration.
\<close>

definition no_write_fails :: "db_write \<Rightarrow> bool" where
  "no_write_fails w = False"

definition create_webhook_fails :: "db_write \<Rightarrow> bool" where
  "create_webhook_fails w = (w = webhookNotification_create)"

text \<open>
  The outside world of the evaluations: a complete SMTP environment, a mail transport
  that refuses the connection, one that accepts the mail, and a webhook endpoint that
  answers 200 with an empty JSON object.
\<close>

definition example_smtp :: smtp_env where
  "example_smtp =
     \<lparr>SMTP_HOST = Some ''smtp.x.com'', SMTP_PORT = Some ''587'', SMTP_USER = Some ''mon'',
      SMTP_PASS = Some ''secret'', SMTP_FROM = None\<rparr>"

definition failing_sendMail :: "mail \<Rightarrow> string + json" where
  "failing_sendMail m = Inl ''connect ECONNREFUSED''"

definition accepting_sendMail :: "mail \<Rightarrow> string + json" where
  "accepting_sendMail m = Inr (JObj [(''accepted'', JArr [JStr (mail_to m)])])"

definition example_fetch :: "string \<Rightarrow> jobject \<Rightarrow> jobject \<Rightarrow> string + fetch_response" where
  "example_fetch url headers body =
     Inr \<lparr>response_ok = True, response_status = 200, response_statusText = ''OK'',
          response_json = Inr (JObj [])\<rparr>"

text \<open>
  A webhook endpoint that answers with the JSON body it was sent, and a webhook
  sub-configuration whose template has a key of the notification data,
  \<^verbatim>\<open>probeName\<close>.
\<close>

definition echo_fetch :: "string \<Rightarrow> jobject \<Rightarrow> jobject \<Rightarrow> string + fetch_response" where
  "echo_fetch url headers body =
     Inr \<lparr>response_ok = True, response_status = 200, response_statusText = ''OK'',
          response_json = Inr (JObj body)\<rparr>"

definition hook_config :: NotificationConfig where
  "hook_config =
     \<lparr>nc_id = ''cfg2'', nc_name = ''hook'', nc_groupId = ''g-ops'', nc_type = WEBHOOK\<rparr>"

definition fallback_webhook :: WebhookNotification where
  "fallback_webhook =
     \<lparr>wn_notificationConfigId = ''cfg2'', wn_url = ''https://hook.example/in'',
      wn_headers = JObj [],
      wn_payload = JObj [(''probeName'', JStr ''none''), (''level'', JStr ''template'')]\<rparr>"

text \<open>
  The event of scenario 3 of the specification as a request, and the same after
  validation.
\<close>

definition send_request_body :: json where
  "send_request_body =
     JObj [(''notificationConfigId'', JStr ''cfg1''), (''serverId'', JStr ''s-web''),
           (''level'', JStr ''ERROR''), (''title'', JStr ''Down''),
           (''message'', JStr ''svc down'')]"

definition send_request_input :: send_input where
  "send_request_input =
     \<lparr>si_notificationConfigId = ''cfg1'', si_serverId = ''s-web'', si_probeId = None,
      si_level = ERROR, si_title = ''Down'', si_message = ''svc down'', si_details = None\<rparr>"

text \<open>An event for the WEBHOOK configuration, its server, and the stored template.\<close>

definition example_send_input :: send_input where
  "example_send_input =
     \<lparr>si_notificationConfigId = ''cfg2'', si_serverId = ''s-web'', si_probeId = None,
      si_level = ERROR, si_title = ''Down'', si_message = ''svc down'', si_details = None\<rparr>"

definition example_server :: Server where
  "example_server =
     \<lparr>server_id = ''s-web'', server_name = ''web'', server_groups = [''g-ops''],
      server_createdById = ''u-alice''\<rparr>"

definition example_template :: json where
  "example_template = JObj [(''source'', JStr ''srv-mon''), (''level'', JStr ''template'')]"

definition example_webhook :: WebhookNotification where
  "example_webhook =
     \<lparr>wn_notificationConfigId = ''cfg2'', wn_url = ''https://hook.example/in'',
      wn_headers = JObj [], wn_payload = example_template\<rparr>"

section \<open>Properties\<close>

subsection \<open>Helper facts\<close>

lemma find_Some_D: "find P xs = Some x \<Longrightarrow> x \<in> set xs \<and> P x"
  by (induction xs) (auto split: if_splits)

lemma find_None_D: "find P xs = None \<Longrightarrow> x \<in> set xs \<Longrightarrow> \<not> P x"
  by (induction xs) (auto split: if_splits)

lemma sole_admin_found:
  assumes u: "unique_memberships d" and s: "sole_admin d g a"
  shows "\<exists>m. groupUser_findFirst d a g = Some m \<and> gu_role m = GroupRole_ADMIN"
proof -
  from s obtain m where m: "group_admins d g = [m]" "gu_userId m = a"
    by (auto simp: sole_admin_def)
  then have "m \<in> set (group_admins d g)" by simp
  then have mm: "m \<in> set (db_groupUsers d)" "gu_groupId m = g" "gu_role m = GroupRole_ADMIN"
    by (auto simp: group_admins_def)
  have "groupUser_findFirst d a g \<noteq> None"
    using mm m(2) find_None_D[of "\<lambda>gu. gu_userId gu = a \<and> gu_groupId gu = g" "db_groupUsers d" m]
    by (auto simp: groupUser_findFirst_def)
  then obtain x where x: "groupUser_findFirst d a g = Some x" by auto
  then have xx: "x \<in> set (db_groupUsers d)" "gu_userId x = a" "gu_groupId x = g"
    using find_Some_D[of "\<lambda>gu. gu_userId gu = a \<and> gu_groupId gu = g" "db_groupUsers d" x]
    by (auto simp: groupUser_findFirst_def)
  have "inj_on (\<lambda>gu. (gu_userId gu, gu_groupId gu)) (set (db_groupUsers d))"
    using u by (simp add: unique_memberships_def distinct_map)
  then have "x = m" using xx mm m(2) by (auto dest: inj_onD)
  with x mm show ?thesis by simp
qed

lemma sole_admin_length: "sole_admin d g a \<Longrightarrow> length (group_admins d g) = 1"
  by (auto simp: sole_admin_def dest: arg_cong[where f=length])

text \<open>Unfolding the sample installation and the queries.\<close>

lemmas example_simps =
  example_db_def root_session_def carol_session_def demote_body_def
  user_findUnique_def group_findUnique_def groupUser_findFirst_def groupUser_findFirstAdmin_def
  group_admins_def group_members_def

subsection \<open>Last-administrator protection of the member routes\<close>

text \<open>
  C3 (as amended). Memberships being unique per user and group, as the schema requires:
  in a group whose only ADMIN membership belongs to the actor \<open>a\<close>, a change of the role
  of \<open>a\<close> to MEMBER and a removal of \<open>a\<close> through the member routes leave the database
  unchanged for every caller, SUPER_ADMIN included. The status is one of 400, 401, 403
  and 500, never 409: a caller who passes the administrator check and is allowed to
  touch the target is answered 400 (500 is the answer when the user row of \<open>a\<close> is
  missing), a request without a session is answered 401, and a caller who fails the
  administrator check is answered 403.
\<close>

theorem last_admin_rejected:
  assumes u: "unique_memberships d" and s: "sole_admin d groupId a"
    and b: "updateMemberSchema body = Some GroupRole_MEMBER"
  shows "snd (PUT_member d session groupId a (Some body)) = d
       \<and> snd (DELETE_member d session groupId a) = d
       \<and> fst (fst (PUT_member d session groupId a (Some body))) \<in> {400, 401, 403, 500}
       \<and> fst (DELETE_member d session groupId a) \<in> {400, 401, 403, 500}
       \<and> (\<forall>s t. session = Some s \<and> checkGroupAdmin d groupId (session_user_id s)
                 \<and> user_findUnique d a = Some t \<and> \<not> targets_super_admin d s t
             \<longrightarrow> fst (fst (PUT_member d session groupId a (Some body))) = 400
               \<and> fst (DELETE_member d session groupId a) = 400)
       \<and> (session = None
             \<longrightarrow> fst (fst (PUT_member d session groupId a (Some body))) = 401
               \<and> fst (DELETE_member d session groupId a) = 401)
       \<and> (\<forall>s. session = Some s \<and> \<not> checkGroupAdmin d groupId (session_user_id s)
             \<longrightarrow> fst (fst (PUT_member d session groupId a (Some body))) = 403
               \<and> fst (DELETE_member d session groupId a) = 403)"
proof -
  from sole_admin_found[OF u s] obtain m where
    m: "groupUser_findFirst d a groupId = Some m" "gu_role m = GroupRole_ADMIN" by auto
  note l = sole_admin_length[OF s]
  show ?thesis
    using m l b by (auto simp: PUT_member_def DELETE_member_def split: option.splits)
qed

text \<open>
  In the sample installation alice is the only administrator of Ops; the SUPER_ADMIN is
  refused both operations with status 400, a request without a session with 401, and
  carol, who administers nothing, with 403.
\<close>

theorem last_admin_rejected_witness:
  "unique_memberships example_db \<and> sole_admin example_db ''g-ops'' ''u-alice''
   \<and> updateMemberSchema demote_body = Some GroupRole_MEMBER
   \<and> PUT_member example_db (Some root_session) ''g-ops'' ''u-alice'' (Some demote_body)
       = ((400, None), example_db)
   \<and> DELETE_member example_db (Some root_session) ''g-ops'' ''u-alice'' = (400, example_db)
   \<and> fst (fst (PUT_member example_db None ''g-ops'' ''u-alice'' (Some demote_body))) = 401
   \<and> fst (DELETE_member example_db None ''g-ops'' ''u-alice'') = 401
   \<and> fst (fst (PUT_member example_db (Some carol_session) ''g-ops'' ''u-alice''
                 (Some demote_body))) = 403
   \<and> fst (DELETE_member example_db (Some carol_session) ''g-ops'' ''u-alice'') = 403"
proof -
  have h1: "unique_memberships example_db"
    by (simp add: unique_memberships_def example_db_def)
  have h2: "sole_admin example_db ''g-ops'' ''u-alice''"
    by (simp add: sole_admin_def group_admins_def example_db_def)
  have h3: "updateMemberSchema demote_body = Some GroupRole_MEMBER"
    by (simp add: updateMemberSchema_def demote_body_def required_def)
  have c: "checkGroupAdmin example_db ''g-ops'' (session_user_id root_session)"
    by (simp add: checkGroupAdmin_def example_simps)
  have nc: "\<not> checkGroupAdmin example_db ''g-ops'' (session_user_id carol_session)"
    by (simp add: checkGroupAdmin_def example_simps)
  have t: "user_findUnique example_db ''u-alice'' = Some \<lparr>user_id = ''u-alice'', user_email = ''alice@x.com'', user_name = ''alice'',
          user_password = ''h2'', user_role = USER\<rparr>"
    by (simp add: example_simps)
  have nt: "\<not> targets_super_admin example_db root_session \<lparr>user_id = ''u-alice'', user_email = ''alice@x.com'', user_name = ''alice'',
          user_password = ''h2'', user_role = USER\<rparr>"
    by (simp add: targets_super_admin_def)
  note r = last_admin_rejected[OF h1 h2 h3, of "Some root_session"]
  note n = last_admin_rejected[OF h1 h2 h3, of None]
  note k = last_admin_rejected[OF h1 h2 h3, of "Some carol_session"]
  from r c t nt
  have "snd (PUT_member example_db (Some root_session) ''g-ops'' ''u-alice'' (Some demote_body)) = example_db"
     "snd (DELETE_member example_db (Some root_session) ''g-ops'' ''u-alice'') = example_db"
     "fst (fst (PUT_member example_db (Some root_session) ''g-ops'' ''u-alice'' (Some demote_body))) = 400"
     "fst (DELETE_member example_db (Some root_session) ''g-ops'' ''u-alice'') = 400"
    by blast+
  moreover have "snd (fst (PUT_member example_db (Some root_session) ''g-ops'' ''u-alice'' (Some demote_body))) = None"
    using h3 by (simp add: PUT_member_def checkGroupAdmin_def targets_super_admin_def example_simps)
  moreover from n
  have "fst (fst (PUT_member example_db None ''g-ops'' ''u-alice'' (Some demote_body))) = 401"
     "fst (DELETE_member example_db None ''g-ops'' ''u-alice'') = 401"
    by blast+
  moreover from k nc
  have "fst (fst (PUT_member example_db (Some carol_session) ''g-ops'' ''u-alice''
                 (Some demote_body))) = 403"
     "fst (DELETE_member example_db (Some carol_session) ''g-ops'' ''u-alice'') = 403"
    by blast+
  ultimately show ?thesis using h1 h2 h3 by (auto simp: prod_eq_iff)
qed

text \<open>The status of the refusal is not 409 (Conflict).\<close>

theorem last_admin_conflict_counterexample:
  "sole_admin example_db ''g-ops'' ''u-alice''
   \<and> fst (fst (PUT_member example_db (Some root_session) ''g-ops'' ''u-alice'' (Some demote_body))) \<noteq> 409
   \<and> fst (DELETE_member example_db (Some root_session) ''g-ops'' ''u-alice'') \<noteq> 409"
  by (simp add: sole_admin_def PUT_member_def DELETE_member_def checkGroupAdmin_def
      targets_super_admin_def updateMemberSchema_def required_def example_simps)

subsection \<open>Access decisions\<close>

lemma findFirst_member_of: "(groupUser_findFirst d u g \<noteq> None) = member_of d u g"
  by (auto simp: groupUser_findFirst_def member_of_def find_None_iff list_ex_iff)

lemma findFirst_member_of_ex: "(\<exists>y. groupUser_findFirst d u g = Some y) = member_of d u g"
  using findFirst_member_of[of d u g] by auto

lemma count_member_of:
  "(0 < length (filter (\<lambda>gu. gu_userId gu = u \<and> gu_groupId gu \<in> set gs) (db_groupUsers d)))
     = list_ex (\<lambda>g. member_of d u g) gs"
  by (auto simp: member_of_def list_ex_iff filter_empty_conv)

lemma filter_member_of:
  "(filter (\<lambda>gu. gu_userId gu = u \<and> gu_groupId gu \<in> set gs) (db_groupUsers d) \<noteq> [])
     = list_ex (\<lambda>g. member_of d u g) gs"
  using count_member_of[of u gs d] by simp

lemma checkServerAccess_found:
  "server_findUnique d sid = Some sv \<Longrightarrow>
     checkServerAccess d (session_user_id s) sid (session_user_role s = SUPER_ADMIN)
       = canView_server d s sv"
  by (simp add: checkServerAccess_def canView_server_def filter_member_of Let_def)

lemma checkNotificationAccess_found:
  "notificationConfig_findUnique d nid = Some c \<Longrightarrow>
     checkNotificationAccess d nid (session_user_id s) (session_user_role s = SUPER_ADMIN)
       = canView_notificationConfig d s c"
  by (simp add: checkNotificationAccess_def canView_notificationConfig_def findFirst_member_of_ex)

lemma group_found_id: "group_findUnique d gid = Some g \<Longrightarrow> group_id g = gid"
  by (auto simp: group_findUnique_def dest: find_Some_D)

lemma checkGroupAccess_found:
  "group_findUnique d gid = Some g \<Longrightarrow>
     checkGroupAccess d gid (session_user_id s) False = canView_group d s g"
  by (auto simp: checkGroupAccess_def canView_group_def findFirst_member_of_ex dest: group_found_id)

text \<open>
  C1 (as amended). An authenticated actor who cannot view an existing notification
  configuration, server or group is answered 403. Status 404 is answered only when the
  resource does not exist, and for a notification configuration only to a SUPER_ADMIN;
  the probe route never answers 404. An actor who is not SUPER_ADMIN and asks for a
  notification configuration or a server that does not exist is answered 403.
\<close>

theorem access_denied_and_not_found:
  "(\<forall>s c. notificationConfig_findUnique d nid = Some c \<and> \<not> canView_notificationConfig d s c
        \<longrightarrow> GET_notification d (Some s) nid = (403, None))
   \<and> (\<forall>s sv. server_findUnique d sid = Some sv \<and> \<not> canView_server d s sv
        \<longrightarrow> GET_probes d (Some s) sid = (403, []))
   \<and> (\<forall>s g. group_findUnique d gid = Some g \<and> \<not> canView_group d s g
        \<longrightarrow> GET_group d (Some s) gid = (403, None))
   \<and> (fst (GET_notification d session nid) = 404
        \<longrightarrow> notificationConfig_findUnique d nid = None
            \<and> map_option session_user_role session = Some SUPER_ADMIN)
   \<and> fst (GET_probes d session sid) \<noteq> 404
   \<and> (fst (GET_group d session gid) = 404 \<longrightarrow> group_findUnique d gid = None)
   \<and> (\<forall>s. notificationConfig_findUnique d nid = None \<and> session_user_role s \<noteq> SUPER_ADMIN
        \<longrightarrow> GET_notification d (Some s) nid = (403, None))
   \<and> (\<forall>s. server_findUnique d sid = None \<and> session_user_role s \<noteq> SUPER_ADMIN
        \<longrightarrow> GET_probes d (Some s) sid = (403, []))"
proof -
  have a: "\<forall>s c. notificationConfig_findUnique d nid = Some c \<and> \<not> canView_notificationConfig d s c
        \<longrightarrow> GET_notification d (Some s) nid = (403, None)"
    by (simp add: GET_notification_def checkNotificationAccess_found)
  have b: "\<forall>s sv. server_findUnique d sid = Some sv \<and> \<not> canView_server d s sv
        \<longrightarrow> GET_probes d (Some s) sid = (403, [])"
    by (simp add: GET_probes_def checkServerAccess_found)
  have c: "\<forall>s g. group_findUnique d gid = Some g \<and> \<not> canView_group d s g
        \<longrightarrow> GET_group d (Some s) gid = (403, None)"
    by (simp add: GET_group_def checkGroupAccess_found)
  have e: "fst (GET_notification d session nid) = 404
        \<longrightarrow> notificationConfig_findUnique d nid = None
            \<and> map_option session_user_role session = Some SUPER_ADMIN"
    by (auto simp: GET_notification_def checkNotificationAccess_def split: option.splits if_splits)
  have f: "fst (GET_probes d session sid) \<noteq> 404"
    by (auto simp: GET_probes_def split: option.splits)
  have g: "fst (GET_group d session gid) = 404 \<longrightarrow> group_findUnique d gid = None"
    by (auto simp: GET_group_def split: option.splits if_splits)
  have h: "\<forall>s. notificationConfig_findUnique d nid = None \<and> session_user_role s \<noteq> SUPER_ADMIN
        \<longrightarrow> GET_notification d (Some s) nid = (403, None)"
    by (simp add: GET_notification_def checkNotificationAccess_def)
  have i: "\<forall>s. server_findUnique d sid = None \<and> session_user_role s \<noteq> SUPER_ADMIN
        \<longrightarrow> GET_probes d (Some s) sid = (403, [])"
    by (simp add: GET_probes_def checkServerAccess_def)
  from a b c e f g h i show ?thesis by blast
qed

text \<open>
  carol belongs to no group: the configuration, the server and the group of the sample
  installation are refused to her with 403; the SUPER_ADMIN gets 404 for a missing
  configuration.
\<close>

theorem access_denied_and_not_found_witness:
  "notificationConfig_findUnique example_db ''cfg1'' \<noteq> None
   \<and> server_findUnique example_db ''s-web'' \<noteq> None
   \<and> group_findUnique example_db ''g-ops'' \<noteq> None
   \<and> GET_notification example_db (Some carol_session) ''cfg1'' = (403, None)
   \<and> GET_probes example_db (Some carol_session) ''s-web'' = (403, [])
   \<and> GET_group example_db (Some carol_session) ''g-ops'' = (403, None)
   \<and> fst (GET_notification example_db (Some root_session) ''cfg-x'') = 404
   \<and> notificationConfig_findUnique example_db ''cfg-x'' = None"
proof -
  have n: "notificationConfig_findUnique example_db ''cfg1''
             = Some \<lparr>nc_id = ''cfg1'', nc_name = ''mail'', nc_groupId = ''g-ops'', nc_type = EMAIL\<rparr>"
    by (simp add: notificationConfig_findUnique_def example_db_def)
  have nv: "\<not> canView_notificationConfig example_db carol_session
               \<lparr>nc_id = ''cfg1'', nc_name = ''mail'', nc_groupId = ''g-ops'', nc_type = EMAIL\<rparr>"
    by (simp add: canView_notificationConfig_def member_of_def example_simps)
  have sv: "server_findUnique example_db ''s-web''
             = Some \<lparr>server_id = ''s-web'', server_name = ''web'', server_groups = [''g-ops''],
                     server_createdById = ''u-alice''\<rparr>"
    by (simp add: server_findUnique_def example_db_def)
  have svv: "\<not> canView_server example_db carol_session
               \<lparr>server_id = ''s-web'', server_name = ''web'', server_groups = [''g-ops''],
                     server_createdById = ''u-alice''\<rparr>"
    by (simp add: canView_server_def member_of_def example_simps)
  have g: "group_findUnique example_db ''g-ops''
             = Some \<lparr>group_id = ''g-ops'', group_name = ''Ops'', group_description = []\<rparr>"
    by (simp add: example_simps)
  have gv: "\<not> canView_group example_db carol_session
              \<lparr>group_id = ''g-ops'', group_name = ''Ops'', group_description = []\<rparr>"
    by (simp add: canView_group_def member_of_def example_simps)
  have r: "fst (GET_notification example_db (Some root_session) ''cfg-x'') = 404"
    by (simp add: GET_notification_def checkNotificationAccess_def
        notificationConfig_findUnique_def example_simps)
  note t = access_denied_and_not_found[of example_db "''cfg1''" "''s-web''" "''g-ops''"
      "Some carol_session"]
  note t2 = access_denied_and_not_found[of example_db "''cfg-x''" "''s-web''" "''g-ops''"
      "Some root_session"]
  from t n nv have 1: "GET_notification example_db (Some carol_session) ''cfg1'' = (403, None)"
    by blast
  from t sv svv have 2: "GET_probes example_db (Some carol_session) ''s-web'' = (403, [])"
    by blast
  from t g gv have 3: "GET_group example_db (Some carol_session) ''g-ops'' = (403, None)"
    by blast
  from t2 r have 4: "notificationConfig_findUnique example_db ''cfg-x'' = None" by blast
  from 1 2 3 4 r n sv g show ?thesis by simp
qed

text \<open>
  A request of carol for a configuration, a server or a group that does not exist is
  answered 403.
\<close>

theorem not_found_never_denied_counterexample:
  "notificationConfig_findUnique example_db ''cfg-x'' = None
   \<and> fst (GET_notification example_db (Some carol_session) ''cfg-x'') = 403
   \<and> server_findUnique example_db ''s-x'' = None
   \<and> fst (GET_probes example_db (Some carol_session) ''s-x'') = 403
   \<and> group_findUnique example_db ''g-x'' = None
   \<and> fst (GET_group example_db (Some carol_session) ''g-x'') = 403"
  by (simp add: GET_notification_def checkNotificationAccess_def GET_probes_def
      checkServerAccess_def GET_group_def checkGroupAccess_def
      notificationConfig_findUnique_def server_findUnique_def example_simps)

subsection \<open>Listings\<close>











subsection \<open>The membership invariant\<close>

text \<open>
  C2. The invariant does not survive the user update with group reassignment. In the
  sample installation, where it holds, the SUPER_ADMIN updates alice with an empty list
  of groups: the call succeeds with status 200, the only ADMIN membership of Ops is
  deleted without the check the member routes make, and Ops is left with bob as a
  MEMBER and no administrator.
\<close>

theorem user_update_drops_last_admin:
  "last_admin_invariant example_db
   \<and> fst (fst (PUT_user example_zod example_hash example_db (Some root_session) ''u-alice''
                 (Some clear_groups_body))) = 200
   \<and> db_groupUsers (snd (PUT_user example_zod example_hash example_db (Some root_session) ''u-alice''
                 (Some clear_groups_body)))
       = [\<lparr>gu_userId = ''u-bob'', gu_groupId = ''g-ops'', gu_role = GroupRole_MEMBER\<rparr>]
   \<and> \<not> last_admin_invariant (snd (PUT_user example_zod example_hash example_db (Some root_session)
                 ''u-alice'' (Some clear_groups_body)))"
proof -
  have p: "updateUserSchema example_zod clear_groups_body
             = Some \<lparr>uu_name = None, uu_email = None, uu_password = None, uu_role = None,
                     uu_groups = Some []\<rparr>"
    by (simp add: updateUserSchema_def clear_groups_body_def optional_def)
  have r: "PUT_user example_zod example_hash example_db (Some root_session) ''u-alice''
             (Some clear_groups_body)
           = ((200, user_findUnique example_db ''u-alice''),
              example_db\<lparr>db_groupUsers :=
                [\<lparr>gu_userId = ''u-bob'', gu_groupId = ''g-ops'', gu_role = GroupRole_MEMBER\<rparr>]\<rparr>)"
    by (simp add: PUT_user_def p truthy_string_def user_update_def groupUser_deleteMany_def
        Let_def example_simps)
  have i: "last_admin_invariant example_db"
    by (simp add: last_admin_invariant_def group_admins_def example_db_def)
  show ?thesis
    unfolding r using i by (simp add: last_admin_invariant_def group_admins_def)
qed

subsection \<open>Adding members\<close>

lemma createAll_users: "db_users (fst (groupUser_createAll d rows)) = db_users d"
  by (induction rows arbitrary: d) (auto simp: groupUser_create_def split: option.splits if_splits)

lemma createAll_groups: "db_groups (fst (groupUser_createAll d rows)) = db_groups d"
  by (induction rows arbitrary: d) (auto simp: groupUser_create_def split: option.splits if_splits)

lemma createAll_keeps:
  "x \<in> set (db_groupUsers d) \<Longrightarrow> x \<in> set (db_groupUsers (fst (groupUser_createAll d rows)))"
  by (induction rows arbitrary: d) (auto simp: groupUser_create_def split: option.splits if_splits)

lemma create_None_iff:
  "(groupUser_create d row = None) =
     (list_ex (\<lambda>gu. gu_userId gu = gu_userId row \<and> gu_groupId gu = gu_groupId row) (db_groupUsers d)
      \<or> user_findUnique d (gu_userId row) = None
      \<or> group_findUnique d (gu_groupId row) = None)"
  by (auto simp: groupUser_create_def groupUser_findFirst_def find_None_iff list_ex_iff)

lemma rejected_stays:
  "groupUser_create d row = None \<Longrightarrow> groupUser_create (fst (groupUser_createAll d rows)) row = None"
  unfolding create_None_iff
  by (auto simp: list_ex_iff user_findUnique_def group_findUnique_def createAll_users
      createAll_groups intro: createAll_keeps)

lemma created_is_rejected:
  "groupUser_create d row = Some d' \<Longrightarrow> groupUser_create d' row = None"
  by (auto simp: groupUser_create_def groupUser_findFirst_def find_None_iff split: if_splits)

lemma all_rejected_after:
  "row \<in> set rows \<Longrightarrow> groupUser_create (fst (groupUser_createAll d rows)) row = None"
proof (induction rows arbitrary: d)
  case Nil
  then show ?case by simp
next
  case (Cons x xs)
  show ?case
  proof (cases "groupUser_create d x")
    case None
    show ?thesis
    proof (cases "row = x")
      case True
      with None show ?thesis by (simp add: rejected_stays)
    next
      case False
      with Cons None show ?thesis by simp
    qed
  next
    case (Some d1)
    show ?thesis
    proof (cases "row = x")
      case True
      with Some show ?thesis by (simp add: rejected_stays created_is_rejected)
    next
      case False
      with Cons Some show ?thesis by simp
    qed
  qed
qed

lemma createAll_all_rejected:
  "\<forall>row\<in>set rows. groupUser_create d row = None \<Longrightarrow>
     groupUser_createAll d rows = (d, rows = [])"
  by (induction rows) auto

lemma createAll_accepted_present:
  "snd (groupUser_createAll d rows) \<Longrightarrow> row \<in> set rows \<Longrightarrow>
     row \<in> set (db_groupUsers (fst (groupUser_createAll d rows)))"
proof (induction rows arbitrary: d)
  case Nil
  then show ?case by simp
next
  case (Cons x xs)
  from Cons.prems(1) obtain d1 where d1: "groupUser_create d x = Some d1"
    by (cases "groupUser_create d x") auto
  then have x1: "x \<in> set (db_groupUsers d1)"
    by (auto simp: groupUser_create_def split: if_splits)
  show ?case
  proof (cases "row = x")
    case True
    with d1 x1 show ?thesis by (simp add: createAll_keeps)
  next
    case False
    with Cons d1 show ?thesis by simp
  qed
qed

lemma create_unique:
  assumes "unique_memberships d" and "groupUser_create d x = Some d1"
  shows "unique_memberships d1"
proof -
  from assms(2) have n: "\<forall>gu\<in>set (db_groupUsers d).
      \<not> (gu_userId gu = gu_userId x \<and> gu_groupId gu = gu_groupId x)"
    and d1: "d1 = d\<lparr>db_groupUsers := db_groupUsers d @ [x]\<rparr>"
    by (auto simp: groupUser_create_def groupUser_findFirst_def find_None_iff split: if_splits)
  from n have "(gu_userId x, gu_groupId x)
      \<notin> set (map (\<lambda>gu. (gu_userId gu, gu_groupId gu)) (db_groupUsers d))"
    by fastforce
  with assms(1) d1 show ?thesis by (simp add: unique_memberships_def)
qed

lemma createAll_unique:
  "unique_memberships d \<Longrightarrow> unique_memberships (fst (groupUser_createAll d rows))"
proof (induction rows arbitrary: d)
  case Nil
  then show ?case by simp
next
  case (Cons x xs)
  show ?case
  proof (cases "groupUser_create d x")
    case None
    with Cons show ?thesis by simp
  next
    case (Some d1)
    then have "unique_memberships d1"
      using Cons.prems by (auto intro: create_unique)
    with Cons.IH Some show ?thesis by simp
  qed
qed

lemma newUsers_of_set:
  "set (newUsers_of d g users)
     = {u \<in> set users. \<not> list_ex (\<lambda>gu. gu_userId gu = fst u \<and> gu_groupId gu = g) (db_groupUsers d)}"
  by (auto simp: newUsers_of_def group_members_def list_ex_iff Let_def)

lemma checkGroupAdmin_after:
  "checkGroupAdmin d g u \<Longrightarrow> checkGroupAdmin (fst (groupUser_createAll d rows)) g u"
  by (auto simp: checkGroupAdmin_def user_findUnique_def createAll_users
      groupUser_findFirstAdmin_def find_None_iff intro: createAll_keeps split: if_splits)

lemma second_call_rows_rejected:
  assumes g: "group_findUnique d g \<noteq> None"
  shows "\<forall>row \<in> set (new_rows g (newUsers_of (fst (groupUser_createAll d (new_rows g (newUsers_of d g users)))) g users)).
           groupUser_create (fst (groupUser_createAll d (new_rows g (newUsers_of d g users)))) row = None"
proof
  let ?d' = "fst (groupUser_createAll d (new_rows g (newUsers_of d g users)))"
  fix row assume "row \<in> set (new_rows g (newUsers_of ?d' g users))"
  then obtain u where u: "u \<in> set (newUsers_of ?d' g users)"
      "row = \<lparr>gu_userId = fst u, gu_groupId = g, gu_role = snd u\<rparr>"
    by (auto simp: new_rows_def)
  then have "u \<in> set (newUsers_of d g users)"
    by (auto simp: newUsers_of_set list_ex_iff intro: createAll_keeps)
  then have "row \<in> set (new_rows g (newUsers_of d g users))"
    using u(2) by (auto simp: new_rows_def)
  then show "groupUser_create ?d' row = None" by (rule all_rejected_after)
qed

lemma POST_members_idempotent:
  "snd (POST_members z (snd (POST_members z d session g body)) session g body)
     = snd (POST_members z d session g body)"
proof (cases "\<exists>s b users gr. session = Some s \<and> checkGroupAdmin d g (session_user_id s)
     \<and> body = Some b \<and> addMembersSchema z b = Some users \<and> group_findUnique d g = Some gr
     \<and> newUsers_of d g users \<noteq> []")
  case False
  then have "snd (POST_members z d session g body) = d"
    by (auto simp: POST_members_def Let_def split: option.splits)
  then show ?thesis by simp
next
  case True
  then obtain s b users gr where h: "session = Some s" "checkGroupAdmin d g (session_user_id s)"
    "body = Some b" "addMembersSchema z b = Some users" "group_findUnique d g = Some gr"
    "newUsers_of d g users \<noteq> []" by blast
  let ?d' = "fst (groupUser_createAll d (new_rows g (newUsers_of d g users)))"
  have 1: "snd (POST_members z d session g body) = ?d'"
    using h by (simp add: POST_members_def Let_def)
  have g': "group_findUnique ?d' g = Some gr"
    using h(5) by (simp add: group_findUnique_def createAll_groups)
  have a': "checkGroupAdmin ?d' g (session_user_id s)"
    using h(2) by (rule checkGroupAdmin_after)
  have "groupUser_createAll ?d' (new_rows g (newUsers_of ?d' g users))
          = (?d', new_rows g (newUsers_of ?d' g users) = [])"
    using second_call_rows_rejected[of d g users] h(5) by (intro createAll_all_rejected) simp
  then have "snd (POST_members z ?d' session g body) = ?d'"
    using h(1,3,4) g' a' by (simp add: POST_members_def Let_def)
  with 1 show ?thesis by simp
qed

lemma createAll_accepted_appends:
  "snd (groupUser_createAll d rows) \<Longrightarrow>
     fst (groupUser_createAll d rows) = d\<lparr>db_groupUsers := db_groupUsers d @ rows\<rparr>"
proof (induction rows arbitrary: d)
  case Nil
  then show ?case by simp
next
  case (Cons x xs)
  from Cons.prems obtain d1 where d1: "groupUser_create d x = Some d1"
    by (cases "groupUser_create d x") auto
  then have e: "d1 = d\<lparr>db_groupUsers := db_groupUsers d @ [x]\<rparr>"
    by (auto simp: groupUser_create_def split: if_splits)
  from Cons.prems d1 have "snd (groupUser_createAll d1 xs)" by simp
  from Cons.IH[OF this] d1 show ?case by (simp add: e)
qed

lemma second_call_nothing_new:
  assumes "snd (groupUser_createAll d (new_rows g (newUsers_of d g users)))"
  shows "newUsers_of (fst (groupUser_createAll d (new_rows g (newUsers_of d g users)))) g users = []"
proof -
  let ?rows = "new_rows g (newUsers_of d g users)"
  let ?d' = "fst (groupUser_createAll d ?rows)"
  have "\<forall>u\<in>set users.
          list_ex (\<lambda>gu. gu_userId gu = fst u \<and> gu_groupId gu = g) (db_groupUsers ?d')"
  proof
    fix u assume u: "u \<in> set users"
    show "list_ex (\<lambda>gu. gu_userId gu = fst u \<and> gu_groupId gu = g) (db_groupUsers ?d')"
    proof (cases "u \<in> set (newUsers_of d g users)")
      case True
      then have "\<lparr>gu_userId = fst u, gu_groupId = g, gu_role = snd u\<rparr> \<in> set ?rows"
        by (auto simp: new_rows_def)
      from createAll_accepted_present[OF assms this] show ?thesis
        unfolding list_ex_iff
        by (intro bexI[where x="\<lparr>gu_userId = fst u, gu_groupId = g, gu_role = snd u\<rparr>"]) simp_all
    next
      case False
      with u obtain gu where "gu \<in> set (db_groupUsers d)" "gu_userId gu = fst u"
        "gu_groupId gu = g"
        by (auto simp: newUsers_of_set list_ex_iff)
      then show ?thesis by (auto simp: list_ex_iff intro: createAll_keeps)
    qed
  qed
  then have "set (newUsers_of ?d' g users) = {}"
    unfolding newUsers_of_set by blast
  then show ?thesis by simp
qed

lemma POST_members_201:
  assumes "fst (fst (POST_members z d session g body)) = 201"
  shows "\<exists>s b users gr. session = Some s \<and> checkGroupAdmin d g (session_user_id s)
     \<and> body = Some b \<and> addMembersSchema z b = Some users \<and> group_findUnique d g = Some gr
     \<and> newUsers_of d g users \<noteq> []
     \<and> snd (groupUser_createAll d (new_rows g (newUsers_of d g users)))"
  using assms
  by (auto simp: POST_members_def Let_def split: option.splits if_splits)

text \<open>
  C7 (as amended). Adding members skips the users who are members already. The second
  of two calls with the same request leaves the database as the first call left it.
  After a first call answered 201 the second is answered 400 with no row created. The
  rows of the table before the call are kept, and the uniqueness of a membership per
  user and group is preserved. A call answered 201 appends exactly the rows of the
  users who were not members, and lists only those in its response. A request whose
  users are all members already is answered 400 and changes nothing.
\<close>

theorem addMembers_idempotent:
  "(let r1 = POST_members z d session g body;
        r2 = POST_members z (snd r1) session g body
    in snd r2 = snd r1
       \<and> (fst (fst r1) = 201 \<longrightarrow> fst r2 = (400, []))
       \<and> (unique_memberships d \<longrightarrow> unique_memberships (snd r1))
       \<and> (\<forall>x\<in>set (db_groupUsers d). x \<in> set (db_groupUsers (snd r1)))
       \<and> (\<forall>users. fst (fst r1) = 201 \<and> Option.bind body (addMembersSchema z) = Some users
             \<longrightarrow> r1 = ((201, new_rows g (newUsers_of d g users)),
                       d\<lparr>db_groupUsers := db_groupUsers d @ new_rows g (newUsers_of d g users)\<rparr>))
       \<and> (\<forall>s users gr. session = Some s \<and> checkGroupAdmin d g (session_user_id s)
             \<and> Option.bind body (addMembersSchema z) = Some users
             \<and> group_findUnique d g = Some gr \<and> newUsers_of d g users = []
             \<longrightarrow> r1 = ((400, []), d)))"
proof -
  let ?r1 = "POST_members z d session g body"
  let ?r2 = "POST_members z (snd ?r1) session g body"
  have 1: "snd ?r2 = snd ?r1" by (rule POST_members_idempotent)
  have 2: "fst ?r2 = (400, [])" if "fst (fst ?r1) = 201"
  proof -
    from POST_members_201[OF that] obtain s b users gr where
      h: "session = Some s" "checkGroupAdmin d g (session_user_id s)"
      "body = Some b" "addMembersSchema z b = Some users" "group_findUnique d g = Some gr"
      "newUsers_of d g users \<noteq> []"
      "snd (groupUser_createAll d (new_rows g (newUsers_of d g users)))" by blast
    let ?d' = "fst (groupUser_createAll d (new_rows g (newUsers_of d g users)))"
    have e: "snd ?r1 = ?d'" using h by (simp add: POST_members_def Let_def)
    have g': "group_findUnique ?d' g = Some gr"
      using h(5) by (simp add: group_findUnique_def createAll_groups)
    have a': "checkGroupAdmin ?d' g (session_user_id s)"
      using h(2) by (rule checkGroupAdmin_after)
    have n: "newUsers_of ?d' g users = []" using h(7) by (rule second_call_nothing_new)
    show ?thesis
      unfolding e using h(1,3,4) g' a' n by (simp add: POST_members_def Let_def)
  qed
  have 3: "unique_memberships (snd ?r1)" if "unique_memberships d"
    using that by (auto simp: POST_members_def Let_def createAll_unique split: option.splits)
  have 4: "\<forall>x\<in>set (db_groupUsers d). x \<in> set (db_groupUsers (snd ?r1))"
    by (auto simp: POST_members_def Let_def createAll_keeps split: option.splits)
  have 5: "?r1 = ((201, new_rows g (newUsers_of d g users)),
                  d\<lparr>db_groupUsers := db_groupUsers d @ new_rows g (newUsers_of d g users)\<rparr>)"
    if "fst (fst ?r1) = 201" "Option.bind body (addMembersSchema z) = Some users" for users
  proof -
    from POST_members_201[OF that(1)] that(2) obtain s b gr where
      h: "session = Some s" "checkGroupAdmin d g (session_user_id s)"
      "body = Some b" "addMembersSchema z b = Some users" "group_findUnique d g = Some gr"
      "newUsers_of d g users \<noteq> []"
      "snd (groupUser_createAll d (new_rows g (newUsers_of d g users)))" by auto
    show ?thesis
      using h createAll_accepted_appends[OF h(7)] by (simp add: POST_members_def Let_def)
  qed
  have 6: "?r1 = ((400, []), d)"
    if "session = Some s" "checkGroupAdmin d g (session_user_id s)"
       "Option.bind body (addMembersSchema z) = Some users"
       "group_findUnique d g = Some gr" "newUsers_of d g users = []" for s users gr
    using that by (cases body) (auto simp: POST_members_def Let_def)
  from 1 2 3 4 5 6 show ?thesis unfolding Let_def by blast
qed

lemma add_members_body_parsed:
  "addMembersSchema example_zod add_members_body
     = Some [(''u-alice'', GroupRole_ADMIN), (''u-carol'', GroupRole_MEMBER)]"
  by (simp add: addMembersSchema_def add_members_body_def required_def parse_member_def
      parse_string_format_def example_zod_def)

lemma known_members_body_parsed:
  "addMembersSchema example_zod known_members_body
     = Some [(''u-alice'', GroupRole_ADMIN), (''u-bob'', GroupRole_MEMBER)]"
  by (simp add: addMembersSchema_def known_members_body_def required_def parse_member_def
      parse_string_format_def example_zod_def)

lemma POST_members_example:
  "POST_members example_zod example_db (Some root_session) ''g-ops'' (Some add_members_body)
     = ((201, [\<lparr>gu_userId = ''u-carol'', gu_groupId = ''g-ops'', gu_role = GroupRole_MEMBER\<rparr>]),
        example_db\<lparr>db_groupUsers := db_groupUsers example_db @
          [\<lparr>gu_userId = ''u-carol'', gu_groupId = ''g-ops'', gu_role = GroupRole_MEMBER\<rparr>]\<rparr>)"
  by (simp add: POST_members_def add_members_body_parsed checkGroupAdmin_def newUsers_of_def
      new_rows_def groupUser_create_def Let_def example_simps)

text \<open>
  In the sample installation the SUPER_ADMIN adds alice, who is a member, and carol, who
  is not: one row is created, for carol, and alice is not mentioned in the response. The
  same request again is answered 400 and creates nothing.
\<close>

theorem addMembers_idempotent_witness:
  "unique_memberships example_db
   \<and> fst (POST_members example_zod example_db (Some root_session) ''g-ops'' (Some add_members_body))
       = (201, [\<lparr>gu_userId = ''u-carol'', gu_groupId = ''g-ops'', gu_role = GroupRole_MEMBER\<rparr>])
   \<and> POST_members example_zod
        (snd (POST_members example_zod example_db (Some root_session) ''g-ops''
                (Some add_members_body)))
        (Some root_session) ''g-ops'' (Some add_members_body)
       = ((400, []),
          snd (POST_members example_zod example_db (Some root_session) ''g-ops''
                (Some add_members_body)))
   \<and> unique_memberships
        (snd (POST_members example_zod example_db (Some root_session) ''g-ops''
                (Some add_members_body)))"
proof -
  have u: "unique_memberships example_db"
    by (simp add: unique_memberships_def example_db_def)
  note e = POST_members_example
  note t = addMembers_idempotent[of example_zod example_db "Some root_session" "''g-ops''"
      "Some add_members_body", unfolded Let_def]
  have s: "fst (fst (POST_members example_zod example_db (Some root_session) ''g-ops''
                (Some add_members_body))) = 201"
    by (simp add: e)
  from t s have 1: "fst (POST_members example_zod
        (snd (POST_members example_zod example_db (Some root_session) ''g-ops''
                (Some add_members_body)))
        (Some root_session) ''g-ops'' (Some add_members_body)) = (400, [])" by blast
  from t have 2: "snd (POST_members example_zod
        (snd (POST_members example_zod example_db (Some root_session) ''g-ops''
                (Some add_members_body)))
        (Some root_session) ''g-ops'' (Some add_members_body))
      = snd (POST_members example_zod example_db (Some root_session) ''g-ops''
                (Some add_members_body))" by blast
  from t u have 3: "unique_memberships
        (snd (POST_members example_zod example_db (Some root_session) ''g-ops''
                (Some add_members_body)))" by blast
  have 4: "fst (POST_members example_zod example_db (Some root_session) ''g-ops''
                (Some add_members_body))
       = (201, [\<lparr>gu_userId = ''u-carol'', gu_groupId = ''g-ops'', gu_role = GroupRole_MEMBER\<rparr>])"
    by (simp add: e)
  from u 1 2 3 4 show ?thesis by (simp add: prod_eq_iff)
qed

text \<open>
  A request that names only members is answered 400, not 409; and the response to a
  request that names a member and a newcomer lists the newcomer alone.
\<close>

theorem addMembers_conflict_counterexample:
  "POST_members example_zod example_db (Some root_session) ''g-ops'' (Some known_members_body)
     = ((400, []), example_db)
   \<and> (400::nat) \<noteq> 409
   \<and> fst (POST_members example_zod example_db (Some root_session) ''g-ops'' (Some add_members_body))
       = (201, [\<lparr>gu_userId = ''u-carol'', gu_groupId = ''g-ops'', gu_role = GroupRole_MEMBER\<rparr>])"
  by (simp add: POST_members_example)
    (simp add: POST_members_def known_members_body_parsed checkGroupAdmin_def newUsers_of_def
      Let_def example_simps)

subsection \<open>Registration\<close>

lemma find_append:
  "find P (xs @ ys) = (case find P xs of None \<Rightarrow> find P ys | Some x \<Rightarrow> Some x)"
  by (induction xs) auto

lemma POST_register_first:
  assumes "registerSchema z b = Some inp" and "db_users d = []"
    and "group_findUnique d gid = None" and "group_members d gid = []"
  shows "POST_register z hash uid gid d (Some b)
     = ((201, Some (\<lparr>user_id = uid, user_email = ri_email inp, user_name = ri_name inp,
                      user_password = hash (ri_password inp), user_role = SUPER_ADMIN\<rparr>, True)),
        d\<lparr>db_users := [\<lparr>user_id = uid, user_email = ri_email inp, user_name = ri_name inp,
                         user_password = hash (ri_password inp), user_role = SUPER_ADMIN\<rparr>],
          db_groups := db_groups d @
             [\<lparr>group_id = gid, group_name = ''Groupe principal'',
               group_description = ''Groupe par defaut cree a l'initialisation du systeme''\<rparr>],
          db_groupUsers := db_groupUsers d @
             [\<lparr>gu_userId = uid, gu_groupId = gid, gu_role = GroupRole_ADMIN\<rparr>]\<rparr>)"
proof -
  have nf: "groupUser_findFirst d uid gid = None"
  proof -
    have "\<forall>gu\<in>set (db_groupUsers d). gu_groupId gu \<noteq> gid"
      using assms(4) by (auto simp: group_members_def filter_empty_conv)
    then show ?thesis by (auto simp: groupUser_findFirst_def find_None_iff)
  qed
  show ?thesis
    using assms(1,2,3) nf
    by (simp add: POST_register_def user_findByEmail_def user_create_def user_findUnique_def
        group_create_def group_findUnique_def groupUser_create_def groupUser_findFirst_def
        find_append Let_def)
qed

lemma POST_register_later:
  assumes "registerSchema z b = Some inp" and "db_users d \<noteq> []"
    and "user_findByEmail d (ri_email inp) = None" and "user_findUnique d uid = None"
  shows "POST_register z hash uid gid d (Some b)
     = ((201, Some (\<lparr>user_id = uid, user_email = ri_email inp, user_name = ri_name inp,
                      user_password = hash (ri_password inp), user_role = USER\<rparr>, False)),
        d\<lparr>db_users := db_users d @
             [\<lparr>user_id = uid, user_email = ri_email inp, user_name = ri_name inp,
               user_password = hash (ri_password inp), user_role = USER\<rparr>]\<rparr>)"
  using assms by (simp add: POST_register_def user_create_def Let_def)

lemma POST_register_role:
  assumes "snd (fst (POST_register z hash uid gid d body)) = Some (u, f)"
  shows "f = (db_users d = []) \<and> user_role u = (if db_users d = [] then SUPER_ADMIN else USER)
         \<and> (db_users d \<noteq> [] \<longrightarrow> db_groups (snd (POST_register z hash uid gid d body)) = db_groups d
               \<and> db_groupUsers (snd (POST_register z hash uid gid d body)) = db_groupUsers d)"
  using assms
  by (auto simp: POST_register_def user_create_def Let_def split: option.splits if_splits)

text \<open>
  C10. A registration into an empty user table is answered 201, the account is created
  with the global role SUPER_ADMIN, and the default group is created with this account
  as its only member, in role ADMIN (the identifier drawn for the group being fresh). A
  registration into a user table that is not empty, with an unused email and a fresh
  identifier, is answered 201 and the account has the global role USER; whatever the
  body of the request holds, an account created in a user table that is not empty has
  the role USER and no group or membership is written.
\<close>

theorem registration_roles:
  "(\<forall>inp. registerSchema z b = Some inp \<and> db_users d = []
          \<and> group_findUnique d gid = None \<and> group_members d gid = []
      \<longrightarrow> (let r = POST_register z hash uid gid d (Some b)
           in fst (fst r) = 201
              \<and> map_option (\<lambda>p. (user_id (fst p), user_role (fst p), snd p)) (snd (fst r))
                  = Some (uid, SUPER_ADMIN, True)
              \<and> map (\<lambda>u. (user_id u, user_role u)) (db_users (snd r)) = [(uid, SUPER_ADMIN)]
              \<and> map group_id (db_groups (snd r)) = map group_id (db_groups d) @ [gid]
              \<and> group_members (snd r) gid
                  = [\<lparr>gu_userId = uid, gu_groupId = gid, gu_role = GroupRole_ADMIN\<rparr>]))
   \<and> (\<forall>inp. registerSchema z b = Some inp \<and> db_users d \<noteq> []
          \<and> user_findByEmail d (ri_email inp) = None \<and> user_findUnique d uid = None
      \<longrightarrow> (let r = POST_register z hash uid gid d (Some b)
           in fst (fst r) = 201
              \<and> map_option (\<lambda>p. (user_id (fst p), user_role (fst p), snd p)) (snd (fst r))
                  = Some (uid, USER, False)
              \<and> map (\<lambda>u. (user_id u, user_role u)) (db_users (snd r))
                  = map (\<lambda>u. (user_id u, user_role u)) (db_users d) @ [(uid, USER)]
              \<and> db_groups (snd r) = db_groups d
              \<and> db_groupUsers (snd r) = db_groupUsers d))
   \<and> (\<forall>u f. db_users d \<noteq> [] \<and> snd (fst (POST_register z hash uid gid d body)) = Some (u, f)
      \<longrightarrow> user_role u = USER \<and> \<not> f
          \<and> db_groups (snd (POST_register z hash uid gid d body)) = db_groups d
          \<and> db_groupUsers (snd (POST_register z hash uid gid d body)) = db_groupUsers d)"
proof -
  have a: "\<forall>inp. registerSchema z b = Some inp \<and> db_users d = []
          \<and> group_findUnique d gid = None \<and> group_members d gid = []
      \<longrightarrow> (let r = POST_register z hash uid gid d (Some b)
           in fst (fst r) = 201
              \<and> map_option (\<lambda>p. (user_id (fst p), user_role (fst p), snd p)) (snd (fst r))
                  = Some (uid, SUPER_ADMIN, True)
              \<and> map (\<lambda>u. (user_id u, user_role u)) (db_users (snd r)) = [(uid, SUPER_ADMIN)]
              \<and> map group_id (db_groups (snd r)) = map group_id (db_groups d) @ [gid]
              \<and> group_members (snd r) gid
                  = [\<lparr>gu_userId = uid, gu_groupId = gid, gu_role = GroupRole_ADMIN\<rparr>])"
    by (auto simp: POST_register_first Let_def group_members_def)
  have b: "\<forall>inp. registerSchema z b = Some inp \<and> db_users d \<noteq> []
          \<and> user_findByEmail d (ri_email inp) = None \<and> user_findUnique d uid = None
      \<longrightarrow> (let r = POST_register z hash uid gid d (Some b)
           in fst (fst r) = 201
              \<and> map_option (\<lambda>p. (user_id (fst p), user_role (fst p), snd p)) (snd (fst r))
                  = Some (uid, USER, False)
              \<and> map (\<lambda>u. (user_id u, user_role u)) (db_users (snd r))
                  = map (\<lambda>u. (user_id u, user_role u)) (db_users d) @ [(uid, USER)]
              \<and> db_groups (snd r) = db_groups d
              \<and> db_groupUsers (snd r) = db_groupUsers d)"
    by (auto simp: POST_register_later Let_def)
  have c: "\<forall>u f. db_users d \<noteq> [] \<and> snd (fst (POST_register z hash uid gid d body)) = Some (u, f)
      \<longrightarrow> user_role u = USER \<and> \<not> f
          \<and> db_groups (snd (POST_register z hash uid gid d body)) = db_groups d
          \<and> db_groupUsers (snd (POST_register z hash uid gid d body)) = db_groupUsers d"
    using POST_register_role[of z hash uid gid d body] by auto
  from a b c show ?thesis by blast
qed

lemma register_body_parsed:
  "registerSchema example_zod register_body
     = Some \<lparr>ri_name = ''dave'', ri_email = ''dave@x.com'', ri_password = ''12345678''\<rparr>"
  by (simp add: registerSchema_def register_body_def required_def parse_string_min_def
      parse_string_format_def example_zod_def)

text \<open>
  The same request, which asks for the role SUPER_ADMIN, registers a SUPER_ADMIN with its
  default group in an empty installation and a USER in the sample installation.
\<close>

theorem registration_roles_witness:
  "registerSchema example_zod register_body \<noteq> None
   \<and> db_users empty_db = [] \<and> db_users example_db \<noteq> []
   \<and> fst (fst (POST_register example_zod example_hash ''u-dave'' ''g-main'' empty_db
                 (Some register_body))) = 201
   \<and> map (\<lambda>u. (user_id u, user_role u))
         (db_users (snd (POST_register example_zod example_hash ''u-dave'' ''g-main'' empty_db
                           (Some register_body))))
       = [(''u-dave'', SUPER_ADMIN)]
   \<and> group_members (snd (POST_register example_zod example_hash ''u-dave'' ''g-main'' empty_db
                           (Some register_body))) ''g-main''
       = [\<lparr>gu_userId = ''u-dave'', gu_groupId = ''g-main'', gu_role = GroupRole_ADMIN\<rparr>]
   \<and> map_option (\<lambda>p. (user_id (fst p), user_role (fst p), snd p))
         (snd (fst (POST_register example_zod example_hash ''u-dave'' ''g-main'' example_db
                      (Some register_body))))
       = Some (''u-dave'', USER, False)"
proof -
  note p = register_body_parsed
  have e: "db_users empty_db = []" "group_findUnique empty_db ''g-main'' = None"
    "group_members empty_db ''g-main'' = []"
    by (simp_all add: empty_db_def group_findUnique_def group_members_def)
  have x: "db_users example_db \<noteq> []" "user_findByEmail example_db ''dave@x.com'' = None"
    "user_findUnique example_db ''u-dave'' = None"
    by (simp_all add: example_db_def user_findByEmail_def user_findUnique_def)
  have h1: "registerSchema example_zod register_body
               = Some \<lparr>ri_name = ''dave'', ri_email = ''dave@x.com'', ri_password = ''12345678''\<rparr>
             \<and> db_users empty_db = [] \<and> group_findUnique empty_db ''g-main'' = None
             \<and> group_members empty_db ''g-main'' = []"
    using p e by simp
  have h2: "registerSchema example_zod register_body
               = Some \<lparr>ri_name = ''dave'', ri_email = ''dave@x.com'', ri_password = ''12345678''\<rparr>
             \<and> db_users example_db \<noteq> []
             \<and> user_findByEmail example_db
                  (ri_email \<lparr>ri_name = ''dave'', ri_email = ''dave@x.com'',
                             ri_password = ''12345678''\<rparr>) = None
             \<and> user_findUnique example_db ''u-dave'' = None"
    using p x by simp
  note t1 = registration_roles[of example_zod register_body empty_db "''g-main''" example_hash
      "''u-dave''" None, unfolded Let_def, THEN conjunct1, rule_format, OF h1]
  note t2 = registration_roles[of example_zod register_body example_db "''g-main''" example_hash
      "''u-dave''" None, unfolded Let_def, THEN conjunct2, THEN conjunct1, rule_format, OF h2]
  note 1 = t1[THEN conjunct1] t1[THEN conjunct2, THEN conjunct2, THEN conjunct1]
    t1[THEN conjunct2, THEN conjunct2, THEN conjunct2, THEN conjunct2]
  note 2 = t2[THEN conjunct2, THEN conjunct1]
  from 1 2 p e(1) x(1) show ?thesis by simp
qed

subsection \<open>Update of a notification configuration\<close>

lemma find_filter_None: "(find P xs = None) = (filter P xs = [])"
  by (induction xs) auto

lemma emailConfig_of_rows: "(emailConfig_of d nid = None) = (email_rows d nid = [])"
  by (simp add: emailConfig_of_def email_rows_def find_filter_None)

lemma webhookConfig_of_rows: "(webhookConfig_of d nid = None) = (webhook_rows d nid = [])"
  by (simp add: webhookConfig_of_def webhook_rows_def find_filter_None)

lemma find_map_same_key:
  assumes "\<And>x. key (f x) = key x"
  shows "find (\<lambda>x. key x = k) (map (\<lambda>x. if key x = k then f x else x) xs)
           = map_option f (find (\<lambda>x. key x = k) xs)"
  using assms by (induction xs) auto

lemma email_key_comp:
  "((\<lambda>e. en_notificationConfigId e = nid) \<circ>
    (\<lambda>e. if en_notificationConfigId e = nid then e\<lparr>en_recipients := rs\<rparr> else e))
     = (\<lambda>e. en_notificationConfigId e = nid)"
  by (auto simp: fun_eq_iff)

lemma webhook_key_comp:
  "((\<lambda>w. wn_notificationConfigId w = nid) \<circ>
    (\<lambda>w. if wn_notificationConfigId w = nid
         then w\<lparr>wn_url := u, wn_headers := h, wn_payload := p\<rparr> else w))
     = (\<lambda>w. wn_notificationConfigId w = nid)"
  by (auto simp: fun_eq_iff)

lemma set_notificationConfig_found:
  assumes "notificationConfig_findUnique d nid = Some c" and "group_findUnique d g \<noteq> None"
  shows "\<exists>d1. set_notificationConfig nid name g ty d = Some d1
           \<and> declared_type d1 nid = Some ty
           \<and> db_emailNotifications d1 = db_emailNotifications d
           \<and> db_webhookNotifications d1 = db_webhookNotifications d"
  using assms
  by (auto simp: set_notificationConfig_def declared_type_def notificationConfig_findUnique_def
      find_map_same_key[where key=nc_id])

lemma consistent_iff:
  "config_consistent d nid =
     ((declared_type d nid = Some EMAIL \<and> length (email_rows d nid) = 1 \<and> webhook_rows d nid = [])
      \<or> (declared_type d nid = Some WEBHOOK \<and> length (webhook_rows d nid) = 1
          \<and> email_rows d nid = []))"
  by (auto simp: config_consistent_def declared_type_def
      split: option.splits NotificationChannelType.splits)

lemma email_step:
  assumes t: "declared_type d1 nid = Some EMAIL"
    and nf: "\<And>w. \<not> fails w"
    and old: "(ety = EMAIL \<and> length (email_rows d1 nid) = 1 \<and> webhook_rows d1 nid = [])
            \<or> (ety = WEBHOOK \<and> length (webhook_rows d1 nid) = 1 \<and> email_rows d1 nid = [])"
  shows "\<exists>d'. and_then
           (if ety = WEBHOOK \<and> webhookConfig_of d1 nid \<noteq> None
            then attempt fails webhookNotification_delete (delete_webhookNotification nid) d1
            else Inr d1)
           (\<lambda>d2. if emailConfig_of d1 nid \<noteq> None
                 then attempt fails emailNotification_update (set_emailNotification nid rs) d2
                 else attempt fails emailNotification_create (create_emailNotification nid rs) d2)
          = Inr d' \<and> config_consistent d' nid \<and> declared_type d' nid = Some EMAIL"
proof -
  from old show ?thesis
  proof
    assume a: "ety = EMAIL \<and> length (email_rows d1 nid) = 1 \<and> webhook_rows d1 nid = []"
    then have e: "emailConfig_of d1 nid \<noteq> None"
      by (auto simp: emailConfig_of_rows)
    let ?d' = "d1\<lparr>db_emailNotifications :=
               map (\<lambda>e. if en_notificationConfigId e = nid then e\<lparr>en_recipients := rs\<rparr> else e)
                 (db_emailNotifications d1)\<rparr>"
    have c: "config_consistent ?d' nid" "declared_type ?d' nid = Some EMAIL"
      using a t
      by (simp_all add: consistent_iff declared_type_def notificationConfig_findUnique_def
          email_rows_def webhook_rows_def email_key_comp)
    show ?thesis
      using a e c nf
      by (simp add: and_then_def attempt_def set_emailNotification_def)
  next
    assume a: "ety = WEBHOOK \<and> length (webhook_rows d1 nid) = 1 \<and> email_rows d1 nid = []"
    then have e: "emailConfig_of d1 nid = None" "webhookConfig_of d1 nid \<noteq> None"
      by (auto simp: emailConfig_of_rows webhookConfig_of_rows)
    let ?d2 = "d1\<lparr>db_webhookNotifications :=
               filter (\<lambda>w. wn_notificationConfigId w \<noteq> nid) (db_webhookNotifications d1)\<rparr>"
    let ?d' = "?d2\<lparr>db_emailNotifications := db_emailNotifications ?d2 @
                    [\<lparr>en_notificationConfigId = nid, en_recipients = rs\<rparr>]\<rparr>"
    have e2: "emailConfig_of ?d2 nid = None"
      using e(1) by (simp add: emailConfig_of_def)
    have c: "config_consistent ?d' nid" "declared_type ?d' nid = Some EMAIL"
      using a t
      by (simp_all add: consistent_iff declared_type_def notificationConfig_findUnique_def
          email_rows_def webhook_rows_def)
    show ?thesis
      using a e e2 c nf
      by (simp add: and_then_def attempt_def delete_webhookNotification_def
          create_emailNotification_def)
  qed
qed

lemma webhook_step:
  assumes t: "declared_type d1 nid = Some WEBHOOK"
    and nf: "\<And>w. \<not> fails w"
    and old: "(ety = EMAIL \<and> length (email_rows d1 nid) = 1 \<and> webhook_rows d1 nid = [])
            \<or> (ety = WEBHOOK \<and> length (webhook_rows d1 nid) = 1 \<and> email_rows d1 nid = [])"
  shows "\<exists>d'. and_then
           (if ety = EMAIL \<and> emailConfig_of d1 nid \<noteq> None
            then attempt fails emailNotification_delete (delete_emailNotification nid) d1
            else Inr d1)
           (\<lambda>d2. if webhookConfig_of d1 nid \<noteq> None
                 then attempt fails webhookNotification_update
                        (set_webhookNotification nid u h p) d2
                 else attempt fails webhookNotification_create
                        (create_webhookNotification nid u h p) d2)
          = Inr d' \<and> config_consistent d' nid \<and> declared_type d' nid = Some WEBHOOK"
proof -
  from old show ?thesis
  proof
    assume a: "ety = WEBHOOK \<and> length (webhook_rows d1 nid) = 1 \<and> email_rows d1 nid = []"
    then have e: "webhookConfig_of d1 nid \<noteq> None"
      by (auto simp: webhookConfig_of_rows)
    let ?d' = "d1\<lparr>db_webhookNotifications :=
               map (\<lambda>w. if wn_notificationConfigId w = nid
                         then w\<lparr>wn_url := u, wn_headers := h, wn_payload := p\<rparr> else w)
                 (db_webhookNotifications d1)\<rparr>"
    have c: "config_consistent ?d' nid" "declared_type ?d' nid = Some WEBHOOK"
      using a t
      by (simp_all add: consistent_iff declared_type_def notificationConfig_findUnique_def
          email_rows_def webhook_rows_def webhook_key_comp)
    show ?thesis
      using a e c nf
      by (simp add: and_then_def attempt_def set_webhookNotification_def)
  next
    assume a: "ety = EMAIL \<and> length (email_rows d1 nid) = 1 \<and> webhook_rows d1 nid = []"
    then have e: "webhookConfig_of d1 nid = None" "emailConfig_of d1 nid \<noteq> None"
      by (auto simp: emailConfig_of_rows webhookConfig_of_rows)
    let ?d2 = "d1\<lparr>db_emailNotifications :=
               filter (\<lambda>e. en_notificationConfigId e \<noteq> nid) (db_emailNotifications d1)\<rparr>"
    let ?d' = "?d2\<lparr>db_webhookNotifications := db_webhookNotifications ?d2 @
                    [\<lparr>wn_notificationConfigId = nid, wn_url = u, wn_headers = h,
                      wn_payload = p\<rparr>]\<rparr>"
    have e2: "webhookConfig_of ?d2 nid = None"
      using e(1) by (simp add: webhookConfig_of_def)
    have c: "config_consistent ?d' nid" "declared_type ?d' nid = Some WEBHOOK"
      using a t
      by (simp_all add: consistent_iff declared_type_def notificationConfig_findUnique_def
          email_rows_def webhook_rows_def)
    show ?thesis
      using a e e2 c nf
      by (simp add: and_then_def attempt_def delete_emailNotification_def
          create_webhookNotification_def)
  qed
qed

lemma writes_succeed:
  assumes nf: "\<And>w. \<not> fails w"
    and c: "notificationConfig_findUnique d nid = Some c"
    and cons: "config_consistent d nid"
    and g: "group_findUnique d (ni_groupId inp) \<noteq> None"
  shows "\<exists>d'. PUT_notification_writes fails nid inp c (emailConfig_of d nid)
                 (webhookConfig_of d nid) d = Inr d'
              \<and> config_consistent d' nid
              \<and> declared_type d' nid = Some (input_type (ni_config inp))"
proof -
  from set_notificationConfig_found[OF c g, of "ni_name inp" "input_type (ni_config inp)"]
  obtain d1 where d1:
    "set_notificationConfig nid (ni_name inp) (ni_groupId inp) (input_type (ni_config inp)) d
       = Some d1"
    "declared_type d1 nid = Some (input_type (ni_config inp))"
    "db_emailNotifications d1 = db_emailNotifications d"
    "db_webhookNotifications d1 = db_webhookNotifications d"
    by blast
  have rows: "email_rows d1 nid = email_rows d nid" "webhook_rows d1 nid = webhook_rows d nid"
    "emailConfig_of d1 nid = emailConfig_of d nid"
    "webhookConfig_of d1 nid = webhookConfig_of d nid"
    using d1(3,4) by (simp_all add: email_rows_def webhook_rows_def emailConfig_of_def
        webhookConfig_of_def)
  have old: "(nc_type c = EMAIL \<and> length (email_rows d1 nid) = 1 \<and> webhook_rows d1 nid = [])
      \<or> (nc_type c = WEBHOOK \<and> length (webhook_rows d1 nid) = 1 \<and> email_rows d1 nid = [])"
    using cons c unfolding rows
    by (auto simp: config_consistent_def split: NotificationChannelType.splits)
  have first: "attempt fails notificationConfig_update
          (set_notificationConfig nid (ni_name inp) (ni_groupId inp) (input_type (ni_config inp))) d
        = Inr d1"
    using nf d1(1) by (simp add: attempt_def)
  show ?thesis
  proof (cases "ni_config inp")
    case (EmailInput rs)
    then have t: "declared_type d1 nid = Some EMAIL" using d1(2) by (simp add: input_type_def)
    from email_step[where rs=rs and fails=fails, OF t nf old]
    show ?thesis
      using EmailInput first unfolding rows
      by (simp add: PUT_notification_writes_def and_then_def input_type_def)
  next
    case (WebhookInput u h p)
    then have t: "declared_type d1 nid = Some WEBHOOK" using d1(2) by (simp add: input_type_def)
    from webhook_step[where u=u and h="or_empty_object h" and p="or_empty_object p"
        and fails=fails, OF t nf old]
    show ?thesis
      using WebhookInput first unfolding rows
      by (simp add: PUT_notification_writes_def and_then_def input_type_def)
  qed
qed

lemma writes_stop_at_creation:
  assumes f: "\<And>w. fails w = (w = creation_write (ni_config inp))"
    and c: "notificationConfig_findUnique d nid = Some c"
    and cons: "config_consistent d nid"
    and g: "group_findUnique d (ni_groupId inp) \<noteq> None"
    and sw: "nc_type c \<noteq> input_type (ni_config inp)"
  shows "\<exists>d'. PUT_notification_writes fails nid inp c (emailConfig_of d nid)
                 (webhookConfig_of d nid) d = Inl d'
              \<and> declared_type d' nid = Some (input_type (ni_config inp))
              \<and> email_rows d' nid = [] \<and> webhook_rows d' nid = []"
proof -
  from set_notificationConfig_found[OF c g, of "ni_name inp" "input_type (ni_config inp)"]
  obtain d1 where d1:
    "set_notificationConfig nid (ni_name inp) (ni_groupId inp) (input_type (ni_config inp)) d
       = Some d1"
    "declared_type d1 nid = Some (input_type (ni_config inp))"
    "db_emailNotifications d1 = db_emailNotifications d"
    "db_webhookNotifications d1 = db_webhookNotifications d"
    by blast
  have old: "(nc_type c = EMAIL \<and> length (email_rows d nid) = 1 \<and> webhook_rows d nid = [])
      \<or> (nc_type c = WEBHOOK \<and> length (webhook_rows d nid) = 1 \<and> email_rows d nid = [])"
    using cons c by (auto simp: config_consistent_def split: NotificationChannelType.splits)
  show ?thesis
  proof (cases "ni_config inp")
    case (EmailInput rs)
    with sw have ty: "nc_type c = WEBHOOK" by (cases "nc_type c") (auto simp: input_type_def)
    with old have o: "length (webhook_rows d nid) = 1" "email_rows d nid = []" by auto
    then have e: "emailConfig_of d nid = None" "webhookConfig_of d nid \<noteq> None"
      by (auto simp: emailConfig_of_rows webhookConfig_of_rows)
    have fl: "\<not> fails notificationConfig_update" "\<not> fails webhookNotification_delete"
      "fails emailNotification_create"
      using EmailInput by (simp_all add: f creation_write_def)
    let ?d' = "d1\<lparr>db_webhookNotifications :=
               filter (\<lambda>w. wn_notificationConfigId w \<noteq> nid) (db_webhookNotifications d1)\<rparr>"
    have w: "PUT_notification_writes fails nid inp c (emailConfig_of d nid)
                 (webhookConfig_of d nid) d = Inl ?d'"
      using EmailInput ty e fl d1(1)
      by (simp add: PUT_notification_writes_def and_then_def attempt_def input_type_def
          delete_webhookNotification_def)
    have p: "declared_type ?d' nid = Some (input_type (ni_config inp))"
      "email_rows ?d' nid = []" "webhook_rows ?d' nid = []"
      using d1(2,3) o(2)
      by (simp_all add: declared_type_def notificationConfig_findUnique_def email_rows_def
          webhook_rows_def)
    from w p show ?thesis by blast
  next
    case (WebhookInput u h p)
    with sw have ty: "nc_type c = EMAIL" by (cases "nc_type c") (auto simp: input_type_def)
    with old have o: "length (email_rows d nid) = 1" "webhook_rows d nid = []" by auto
    then have e: "webhookConfig_of d nid = None" "emailConfig_of d nid \<noteq> None"
      by (auto simp: emailConfig_of_rows webhookConfig_of_rows)
    have fl: "\<not> fails notificationConfig_update" "\<not> fails emailNotification_delete"
      "fails webhookNotification_create"
      using WebhookInput by (simp_all add: f creation_write_def)
    let ?d' = "d1\<lparr>db_emailNotifications :=
               filter (\<lambda>e. en_notificationConfigId e \<noteq> nid) (db_emailNotifications d1)\<rparr>"
    have w: "PUT_notification_writes fails nid inp c (emailConfig_of d nid)
                 (webhookConfig_of d nid) d = Inl ?d'"
      using WebhookInput ty e fl d1(1)
      by (simp add: PUT_notification_writes_def and_then_def attempt_def input_type_def
          delete_emailNotification_def)
    have p: "declared_type ?d' nid = Some (input_type (ni_config inp))"
      "email_rows ?d' nid = []" "webhook_rows ?d' nid = []"
      using d1(2,4) o(2)
      by (simp_all add: declared_type_def notificationConfig_findUnique_def email_rows_def
          webhook_rows_def)
    from w p show ?thesis by blast
  qed
qed

text \<open>
  C5 (as amended). For an authorised, valid update, towards an existing group, of a
  configuration that holds exactly the sub-configuration of its declared type: when no
  write fails, the call is
  answered 200 and the configuration again holds exactly the sub-configuration of its
  declared type, which is the requested one. The writes are separate statements in the
  order type, deletion, creation: when the request switches the type and the creation
  of the new sub-configuration is the write that fails, the call is answered 500, the
  declared type is already the requested one and the old sub-configuration is already
  deleted, so the configuration is left with no sub-configuration.
\<close>

theorem type_switch_writes_in_sequence:
  assumes "session = Some s"
    and "checkGroupAdminAccess d nid (session_user_id s) (session_user_role s = SUPER_ADMIN)"
    and "notificationSchema z b = Some inp"
    and "notificationConfig_findUnique d nid = Some c"
    and "config_consistent d nid"
    and "group_findUnique d (ni_groupId inp) \<noteq> None"
  shows "((\<forall>w. \<not> fails w)
          \<longrightarrow> fst (fst (PUT_notification z fails d session nid (Some b))) = 200
             \<and> config_consistent (snd (PUT_notification z fails d session nid (Some b))) nid
             \<and> declared_type (snd (PUT_notification z fails d session nid (Some b))) nid
                 = Some (input_type (ni_config inp)))
       \<and> (nc_type c \<noteq> input_type (ni_config inp)
            \<and> (\<forall>w. fails w = (w = creation_write (ni_config inp)))
          \<longrightarrow> fst (fst (PUT_notification z fails d session nid (Some b))) = 500
             \<and> declared_type (snd (PUT_notification z fails d session nid (Some b))) nid
                 = Some (input_type (ni_config inp))
             \<and> email_rows (snd (PUT_notification z fails d session nid (Some b))) nid = []
             \<and> webhook_rows (snd (PUT_notification z fails d session nid (Some b))) nid = [])"
proof (intro conjI impI)
  assume nf: "\<forall>w. \<not> fails w"
  from writes_succeed[of fails d nid c inp] nf assms(4,5,6) obtain d' where
    "PUT_notification_writes fails nid inp c (emailConfig_of d nid) (webhookConfig_of d nid) d
       = Inr d'"
    "config_consistent d' nid" "declared_type d' nid = Some (input_type (ni_config inp))"
    by blast
  then have "fst (fst (PUT_notification z fails d session nid (Some b))) = 200
     \<and> config_consistent (snd (PUT_notification z fails d session nid (Some b))) nid
     \<and> declared_type (snd (PUT_notification z fails d session nid (Some b))) nid
         = Some (input_type (ni_config inp))"
    using assms(1,2,3,4) by (simp add: PUT_notification_def)
  then show "fst (fst (PUT_notification z fails d session nid (Some b))) = 200"
    "config_consistent (snd (PUT_notification z fails d session nid (Some b))) nid"
    "declared_type (snd (PUT_notification z fails d session nid (Some b))) nid
         = Some (input_type (ni_config inp))"
    by simp_all
next
  assume a: "nc_type c \<noteq> input_type (ni_config inp)
            \<and> (\<forall>w. fails w = (w = creation_write (ni_config inp)))"
  from writes_stop_at_creation[of fails inp d nid c] a assms(4,5,6) obtain d' where
    "PUT_notification_writes fails nid inp c (emailConfig_of d nid) (webhookConfig_of d nid) d
       = Inl d'"
    "declared_type d' nid = Some (input_type (ni_config inp))"
    "email_rows d' nid = []" "webhook_rows d' nid = []"
    by blast
  then have "fst (fst (PUT_notification z fails d session nid (Some b))) = 500
     \<and> declared_type (snd (PUT_notification z fails d session nid (Some b))) nid
         = Some (input_type (ni_config inp))
     \<and> email_rows (snd (PUT_notification z fails d session nid (Some b))) nid = []
     \<and> webhook_rows (snd (PUT_notification z fails d session nid (Some b))) nid = []"
    using assms(1,2,3,4) by (simp add: PUT_notification_def)
  then show "fst (fst (PUT_notification z fails d session nid (Some b))) = 500"
    "declared_type (snd (PUT_notification z fails d session nid (Some b))) nid
         = Some (input_type (ni_config inp))"
    "email_rows (snd (PUT_notification z fails d session nid (Some b))) nid = []"
    "webhook_rows (snd (PUT_notification z fails d session nid (Some b))) nid = []"
    by simp_all
qed

lemma switch_body_parsed:
  "notificationSchema example_zod switch_body
     = Some \<lparr>ni_name = ''mail'', ni_groupId = ''g-ops'',
             ni_config = WebhookInput ''https://hook.example/new'' None None\<rparr>"
  by (simp add: notificationSchema_def switch_body_def required_def optional_def
      parse_string_min_def parse_string_format_def example_zod_def)

lemma PUT_notification_example_failed:
  "PUT_notification example_zod create_webhook_fails example_db (Some root_session) ''cfg1''
     (Some switch_body)
   = ((500, None),
      example_db\<lparr>db_notificationConfigs :=
          [\<lparr>nc_id = ''cfg1'', nc_name = ''mail'', nc_groupId = ''g-ops'', nc_type = WEBHOOK\<rparr>,
           \<lparr>nc_id = ''cfg2'', nc_name = ''hook'', nc_groupId = ''g-ops'', nc_type = WEBHOOK\<rparr>],
        db_emailNotifications := []\<rparr>)"
  by (simp add: PUT_notification_def switch_body_parsed checkGroupAdminAccess_def
      PUT_notification_writes_def and_then_def attempt_def create_webhook_fails_def
      set_notificationConfig_def delete_emailNotification_def input_type_def
      notificationConfig_findUnique_def emailConfig_of_def webhookConfig_of_def example_simps)

text \<open>
  In the sample installation the SUPER_ADMIN switches the EMAIL configuration to WEBHOOK.
  When every write succeeds the configuration ends with its webhook sub-configuration
  alone; when the creation of the webhook sub-configuration fails it ends with none.
\<close>

theorem type_switch_writes_in_sequence_witness:
  "checkGroupAdminAccess example_db ''cfg1'' (session_user_id root_session)
     (session_user_role root_session = SUPER_ADMIN)
   \<and> notificationSchema example_zod switch_body \<noteq> None
   \<and> declared_type example_db ''cfg1'' = Some EMAIL
   \<and> config_consistent example_db ''cfg1''
   \<and> group_findUnique example_db ''g-ops'' \<noteq> None
   \<and> fst (fst (PUT_notification example_zod no_write_fails example_db (Some root_session)
                 ''cfg1'' (Some switch_body))) = 200
   \<and> config_consistent
        (snd (PUT_notification example_zod no_write_fails example_db (Some root_session)
                ''cfg1'' (Some switch_body))) ''cfg1''
   \<and> declared_type
        (snd (PUT_notification example_zod no_write_fails example_db (Some root_session)
                ''cfg1'' (Some switch_body))) ''cfg1'' = Some WEBHOOK
   \<and> fst (fst (PUT_notification example_zod create_webhook_fails example_db (Some root_session)
                 ''cfg1'' (Some switch_body))) = 500
   \<and> email_rows
        (snd (PUT_notification example_zod create_webhook_fails example_db (Some root_session)
                ''cfg1'' (Some switch_body))) ''cfg1'' = []
   \<and> webhook_rows
        (snd (PUT_notification example_zod create_webhook_fails example_db (Some root_session)
                ''cfg1'' (Some switch_body))) ''cfg1'' = []"
proof -
  let ?inp = "\<lparr>ni_name = ''mail'', ni_groupId = ''g-ops'',
               ni_config = WebhookInput ''https://hook.example/new'' None None\<rparr>"
  let ?c = "\<lparr>nc_id = ''cfg1'', nc_name = ''mail'', nc_groupId = ''g-ops'', nc_type = EMAIL\<rparr>"
  have h2: "checkGroupAdminAccess example_db ''cfg1'' (session_user_id root_session)
     (session_user_role root_session = SUPER_ADMIN)"
    by (simp add: checkGroupAdminAccess_def root_session_def)
  note h3 = switch_body_parsed
  have h4: "notificationConfig_findUnique example_db ''cfg1'' = Some ?c"
    by (simp add: notificationConfig_findUnique_def example_db_def)
  have h5: "config_consistent example_db ''cfg1''"
    unfolding config_consistent_def h4
    by (simp add: email_rows_def webhook_rows_def example_db_def)
  have h6: "group_findUnique example_db (ni_groupId ?inp) \<noteq> None"
    by (simp add: example_simps)
  have ty: "input_type (ni_config ?inp) = WEBHOOK"
    "creation_write (ni_config ?inp) = webhookNotification_create"
    "nc_type ?c \<noteq> input_type (ni_config ?inp)"
    by (simp_all add: input_type_def creation_write_def)
  have f1: "\<forall>w. \<not> no_write_fails w" by (simp add: no_write_fails_def)
  have f2: "\<forall>w. create_webhook_fails w = (w = creation_write (ni_config ?inp))"
    by (simp add: create_webhook_fails_def creation_write_def)
  note t1 = type_switch_writes_in_sequence[where fails=no_write_fails, OF refl h2 h3 h4 h5 h6,
      THEN conjunct1, THEN mp, OF f1, unfolded ty]
  note t2 = type_switch_writes_in_sequence[where fails=create_webhook_fails,
      OF refl h2 h3 h4 h5 h6, THEN conjunct2, THEN mp, OF conjI[OF ty(3) f2], unfolded ty]
  have d: "declared_type example_db ''cfg1'' = Some EMAIL"
    unfolding declared_type_def h4 by simp
  have g: "group_findUnique example_db ''g-ops'' \<noteq> None" using h6 by simp
  from t1 t2 h2 h3 h5 d g show ?thesis by simp
qed

text \<open>
  The creation of the new sub-configuration fails and the old one is gone: before the
  call the configuration has its email sub-configuration, after it neither.
\<close>

theorem type_switch_not_atomic_counterexample:
  "emailConfig_of example_db ''cfg1'' \<noteq> None
   \<and> fst (fst (PUT_notification example_zod create_webhook_fails example_db (Some root_session)
                 ''cfg1'' (Some switch_body))) = 500
   \<and> emailConfig_of
        (snd (PUT_notification example_zod create_webhook_fails example_db (Some root_session)
                ''cfg1'' (Some switch_body))) ''cfg1'' = None
   \<and> webhookConfig_of
        (snd (PUT_notification example_zod create_webhook_fails example_db (Some root_session)
                ''cfg1'' (Some switch_body))) ''cfg1'' = None
   \<and> declared_type
        (snd (PUT_notification example_zod create_webhook_fails example_db (Some root_session)
                ''cfg1'' (Some switch_body))) ''cfg1'' = Some WEBHOOK"
  by (simp add: PUT_notification_example_failed)
    (simp add: emailConfig_of_def webhookConfig_of_def declared_type_def
      notificationConfig_findUnique_def example_db_def)

subsection \<open>The webhook payload\<close>

lemma map_of_spread:
  "map_of (spread target source) k
     = (case map_of (rev source) k of None \<Rightarrow> map_of target k | Some v \<Rightarrow> Some v)"
proof (induction source arbitrary: target)
  case Nil
  then show ?case by (simp add: spread_def)
next
  case (Cons kv source)
  have "spread target (kv # source) = spread (AList.update (fst kv) (snd kv) target) source"
    by (simp add: spread_def)
  then show ?case
    using Cons[of "AList.update (fst kv) (snd kv) target"]
    by (cases kv) (auto simp: update_conv' map_add_def split: option.splits)
qed

lemma map_of_rev_distinct: "distinct (map fst xs) \<Longrightarrow> map_of (rev xs) = map_of xs"
  by (induction xs) (auto simp: map_add_def fun_eq_iff split: option.splits dest: map_of_SomeD
      intro: rev_image_eqI)

lemma distinct_spread: "distinct (map fst target) \<Longrightarrow> distinct (map fst (spread target source))"
  unfolding spread_def
  by (induction source arbitrary: target) (simp_all add: distinct_update)

lemma map_of_stringify:
  "distinct (map fst obj) \<Longrightarrow>
     map_of (JSON_stringify obj) k
       = (case map_of obj k of None \<Rightarrow> None
          | Some v \<Rightarrow> if v = JUndefined then None else Some v)"
proof (induction obj)
  case Nil
  then show ?case by (simp add: JSON_stringify_def)
next
  case (Cons kv obj)
  then have "map_of obj (fst kv) = None"
    by (cases kv) (auto simp: map_of_eq_None_iff)
  with Cons show ?case
    by (cases kv) (auto simp: JSON_stringify_def split: option.splits)
qed

lemma notificationData_distinct: "distinct (map fst (notificationData inp server probe now))"
  by (simp add: notificationData_def)

lemma payload_lookup:
  assumes "distinct (map fst data)"
  shows "map_of (sendWebhook_payload tmpl data) k
     = (case map_of data k of
          None \<Rightarrow> map_of (spread [] (own_props tmpl)) k
        | Some v \<Rightarrow> Some v)"
  using assms by (simp add: sendWebhook_payload_def map_of_spread map_of_rev_distinct)

text \<open>
  C9 (as amended). A dispatch through a WEBHOOK configuration calls \<^verbatim>\<open>fetch\<close> once,
  with the stored address, and its result is the answer of the endpoint. The body that
  is delivered is the JSON text of the stored template with the fields of the
  notification data assigned over it. Every key of the notification data is delivered
  with the value of the notification data, whether the template has the key or not,
  unless that value is \<^verbatim>\<open>undefined\<close> (the name and the identifier of the probe, when
  the event has no probe): then the key is not delivered at all, the value of the
  template for that key included. Every other key is delivered with the value of the
  template.
\<close>

theorem webhook_live_fields_take_precedence:
  "(nc_type cfg = WEBHOOK
      \<longrightarrow> dispatch env sendMail fetch cfg e (Some w) inp (notificationData inp server probe now)
          = (case fetch (wn_url w)
                    (spread [(''Content-Type'', JStr ''application/json'')]
                       (own_props (or_empty_object (Some (wn_headers w)))))
                    (JSON_stringify
                       (sendWebhook_payload (or_empty_object (Some (wn_payload w)))
                          (notificationData inp server probe now))) of
               Inl err \<Rightarrow> Inl err
             | Inr response \<Rightarrow>
                 if response_ok response then response_json response
                 else Inl (''Erreur lors de l'envoi du webhook: ''
                           @ string_of_nat (response_status response) @ '' ''
                           @ response_statusText response)))
   \<and> (\<forall>v. map_of (notificationData inp server probe now) k = Some v
       \<longrightarrow> map_of (sendWebhook_payload (or_empty_object (Some (wn_payload w)))
                     (notificationData inp server probe now)) k = Some v
          \<and> map_of (JSON_stringify
                      (sendWebhook_payload (or_empty_object (Some (wn_payload w)))
                         (notificationData inp server probe now))) k
              = (if v = JUndefined then None else Some v))
   \<and> (map_of (notificationData inp server probe now) k = None
       \<longrightarrow> map_of (sendWebhook_payload (or_empty_object (Some (wn_payload w)))
                     (notificationData inp server probe now)) k
            = map_of (spread [] (own_props (or_empty_object (Some (wn_payload w))))) k
          \<and> map_of (JSON_stringify
                      (sendWebhook_payload (or_empty_object (Some (wn_payload w)))
                         (notificationData inp server probe now))) k
              = map_of (JSON_stringify
                          (spread [] (own_props (or_empty_object (Some (wn_payload w)))))) k)"
proof -
  let ?data = "notificationData inp server probe now"
  let ?tmpl = "or_empty_object (Some (wn_payload w))"
  have d: "distinct (map fst ?data)" by (rule notificationData_distinct)
  have dp: "distinct (map fst (sendWebhook_payload ?tmpl ?data))"
    by (simp add: sendWebhook_payload_def distinct_spread)
  have dt: "distinct (map fst (spread [] (own_props ?tmpl)))"
    by (simp add: distinct_spread)
  have call: "nc_type cfg = WEBHOOK
      \<longrightarrow> dispatch env sendMail fetch cfg e (Some w) inp ?data
          = (case fetch (wn_url w)
                    (spread [(''Content-Type'', JStr ''application/json'')]
                       (own_props (or_empty_object (Some (wn_headers w)))))
                    (JSON_stringify (sendWebhook_payload ?tmpl ?data)) of
               Inl err \<Rightarrow> Inl err
             | Inr response \<Rightarrow>
                 if response_ok response then response_json response
                 else Inl (''Erreur lors de l'envoi du webhook: ''
                           @ string_of_nat (response_status response) @ '' ''
                           @ response_statusText response))"
    by (simp add: dispatch_def sendWebhook_def split: sum.splits)
  have keys: "(\<forall>v. map_of ?data k = Some v
       \<longrightarrow> map_of (sendWebhook_payload ?tmpl ?data) k = Some v
          \<and> map_of (JSON_stringify (sendWebhook_payload ?tmpl ?data)) k
              = (if v = JUndefined then None else Some v))
   \<and> (map_of ?data k = None
       \<longrightarrow> map_of (sendWebhook_payload ?tmpl ?data) k = map_of (spread [] (own_props ?tmpl)) k
          \<and> map_of (JSON_stringify (sendWebhook_payload ?tmpl ?data)) k
              = map_of (JSON_stringify (spread [] (own_props ?tmpl))) k)"
    by (simp add: map_of_stringify[OF dp] map_of_stringify[OF dt] payload_lookup[OF d])
  from call keys show ?thesis by (intro conjI) simp_all
qed

text \<open>
  The template of the sample installation has the keys \<^verbatim>\<open>source\<close> and \<^verbatim>\<open>level\<close>; an
  ERROR event is delivered with its own level and with the source of the template.
\<close>

theorem webhook_live_fields_take_precedence_witness:
  "nc_type hook_config = WEBHOOK
   \<and> map_of (notificationData example_send_input example_server None 0) ''level''
       = Some (JStr ''ERROR'')
   \<and> map_of (own_props (wn_payload example_webhook)) ''level'' = Some (JStr ''template'')
   \<and> map_of (notificationData example_send_input example_server None 0) ''source'' = None
   \<and> map_of (own_props (wn_payload example_webhook)) ''source'' = Some (JStr ''srv-mon'')
   \<and> dispatch example_smtp accepting_sendMail echo_fetch hook_config None (Some example_webhook)
        example_send_input (notificationData example_send_input example_server None 0)
       = Inr (JObj [(''source'', JStr ''srv-mon''), (''level'', JStr ''ERROR''),
                    (''title'', JStr ''Down''), (''message'', JStr ''svc down''),
                    (''serverName'', JStr ''web''), (''serverId'', JStr ''s-web''),
                    (''timestamp'', JDate 0), (''details'', JObj [])])
   \<and> map_of (JSON_stringify
               (sendWebhook_payload (or_empty_object (Some (wn_payload example_webhook)))
                  (notificationData example_send_input example_server None 0))) ''level''
       = Some (JStr ''ERROR'')
   \<and> map_of (JSON_stringify
               (sendWebhook_payload (or_empty_object (Some (wn_payload example_webhook)))
                  (notificationData example_send_input example_server None 0))) ''source''
       = Some (JStr ''srv-mon'')"
proof -
  have h: "nc_type hook_config = WEBHOOK" by (simp add: hook_config_def)
  have l: "map_of (notificationData example_send_input example_server None 0) ''level''
     = Some (JStr ''ERROR'')"
    by (simp add: notificationData_def example_send_input_def)
  have s: "map_of (notificationData example_send_input example_server None 0) ''source'' = None"
    by (simp add: notificationData_def)
  have t: "map_of (own_props (wn_payload example_webhook)) ''level'' = Some (JStr ''template'')"
    "map_of (own_props (wn_payload example_webhook)) ''source'' = Some (JStr ''srv-mon'')"
    "map_of (JSON_stringify (spread [] (own_props (or_empty_object
        (Some (wn_payload example_webhook)))))) ''source'' = Some (JStr ''srv-mon'')"
    by (simp_all add: spread_def example_webhook_def example_template_def JSON_stringify_def
        or_empty_object_def)
  note a = webhook_live_fields_take_precedence[of hook_config example_smtp accepting_sendMail
      echo_fetch None example_webhook example_send_input example_server None 0 "''level''"]
  note b = webhook_live_fields_take_precedence[of hook_config example_smtp accepting_sendMail
      echo_fetch None example_webhook example_send_input example_server None 0 "''source''"]
  note call = a[THEN conjunct1, THEN mp, OF h]
  note lv = a[THEN conjunct2, THEN conjunct1, rule_format, OF l, THEN conjunct2]
  note sr = b[THEN conjunct2, THEN conjunct2, THEN mp, OF s, THEN conjunct2]
  have d: "dispatch example_smtp accepting_sendMail echo_fetch hook_config None (Some example_webhook)
        example_send_input (notificationData example_send_input example_server None 0)
       = Inr (JObj [(''source'', JStr ''srv-mon''), (''level'', JStr ''ERROR''),
                    (''title'', JStr ''Down''), (''message'', JStr ''svc down''),
                    (''serverName'', JStr ''web''), (''serverId'', JStr ''s-web''),
                    (''timestamp'', JDate 0), (''details'', JObj [])])"
    unfolding call
    by (simp add: echo_fetch_def JSON_stringify_def sendWebhook_payload_def spread_def
        notificationData_def or_empty_object_def example_webhook_def example_template_def
        example_send_input_def example_server_def)
  from h l s t(1,2) d lv sr t(3) show ?thesis by simp
qed

text \<open>
  A key present in the template and in the notification data whose value is not
  delivered: the template gives \<^verbatim>\<open>probeName\<close> a value, the event has no probe, and the
  body the endpoint receives has no \<^verbatim>\<open>probeName\<close>.
\<close>

theorem webhook_undefined_field_counterexample:
  "nc_type hook_config = WEBHOOK
   \<and> map_of (own_props (wn_payload fallback_webhook)) ''probeName'' = Some (JStr ''none'')
   \<and> map_of (notificationData example_send_input example_server None 0) ''probeName''
       = Some JUndefined
   \<and> dispatch example_smtp accepting_sendMail echo_fetch hook_config None (Some fallback_webhook)
        example_send_input (notificationData example_send_input example_server None 0)
       = Inr (JObj [(''level'', JStr ''ERROR''), (''title'', JStr ''Down''),
                    (''message'', JStr ''svc down''), (''serverName'', JStr ''web''),
                    (''serverId'', JStr ''s-web''), (''timestamp'', JDate 0),
                    (''details'', JObj [])])"
  by (simp add: dispatch_def sendWebhook_def echo_fetch_def JSON_stringify_def
      sendWebhook_payload_def spread_def notificationData_def or_empty_object_def
      hook_config_def fallback_webhook_def example_send_input_def example_server_def)

subsection \<open>Dispatch\<close>

lemma update_fresh_rows:
  "nid \<notin> n_id ` set rows \<Longrightarrow> map (\<lambda>n. if n_id n = nid then f n else n) rows = rows"
  by (induction rows) auto

lemma POST_send_dispatched:
  assumes "sendNotificationSchema z b = Some inp"
    and "notificationConfig_findUnique d (si_notificationConfigId inp) = Some cfg"
    and "server_findUnique d (si_serverId inp) = Some server"
    and "new_id \<notin> set (map n_id (db_notifications d))"
  shows "POST_send z env sendMail fetch new_id now sent d (Some b) =
     (let data = notificationData inp server (send_probe d inp) now;
          notification = new_notification new_id inp data
      in case dispatch env sendMail fetch cfg (emailConfig_of d (si_notificationConfigId inp))
                (webhookConfig_of d (si_notificationConfigId inp)) inp data of
           Inr sendResult \<Rightarrow>
             ((200, Send_ok notification sendResult),
              d\<lparr>db_notifications := db_notifications d @
                   [notification\<lparr>n_sentAt := Some sent, n_status := SENT\<rparr>]\<rparr>)
         | Inl err \<Rightarrow>
             ((500, Send_error err),
              d\<lparr>db_notifications := db_notifications d @
                   [notification\<lparr>n_status := FAILED, n_statusDetails := Some err\<rparr>]\<rparr>))"
  using assms
  by (simp add: POST_send_def notification_create_def notification_update_def Let_def
      update_fresh_rows new_notification_def split: sum.splits)

lemma POST_send_rejected:
  assumes "Option.bind body (sendNotificationSchema z) = None
           \<or> (\<exists>inp. Option.bind body (sendNotificationSchema z) = Some inp
                \<and> (notificationConfig_findUnique d (si_notificationConfigId inp) = None
                    \<or> server_findUnique d (si_serverId inp) = None))"
  shows "snd (POST_send z env sendMail fetch new_id now sent d body) = d
       \<and> fst (fst (POST_send z env sendMail fetch new_id now sent d body)) \<in> {400, 404, 500}"
  using assms
  by (cases body) (auto simp: POST_send_def split: option.splits)

lemma sendEmail_error_nonempty:
  assumes "sendEmail env sendMail rs title level = Inl err" and "\<forall>m. sendMail m \<noteq> Inl []"
  shows "err \<noteq> []"
proof (cases "\<not> truthy_string (SMTP_HOST env) \<or> \<not> truthy_string (SMTP_PORT env)
            \<or> \<not> truthy_string (SMTP_USER env) \<or> \<not> truthy_string (SMTP_PASS env)")
  case True
  with assms(1) have "err = ''Configuration SMTP incomplete''"
    by (simp add: sendEmail_def Let_def)
  then show ?thesis by simp
next
  case False
  with assms(1) obtain m where "sendMail m = Inl err"
    by (simp add: sendEmail_def Let_def)
  with assms(2) show ?thesis by metis
qed

lemma sendWebhook_error_nonempty:
  assumes "sendWebhook fetch url headers tmpl data = Inl err"
    and "\<forall>u h p. fetch u h p \<noteq> Inl []"
    and "\<forall>u h p r. fetch u h p = Inr r \<longrightarrow> response_json r \<noteq> Inl []"
  shows "err \<noteq> []"
proof -
  let ?f = "fetch url (spread [(''Content-Type'', JStr ''application/json'')] (own_props headers))
              (JSON_stringify (sendWebhook_payload tmpl data))"
  show ?thesis
  proof (cases ?f)
    case (Inl e)
    with assms(1) have "err = e" by (simp add: sendWebhook_def)
    with Inl assms(2) show ?thesis by metis
  next
    case (Inr r)
    show ?thesis
    proof (cases "response_ok r")
      case True
      with Inr assms(1) have "response_json r = Inl err" by (simp add: sendWebhook_def)
      with Inr assms(3) show ?thesis by metis
    next
      case False
      with Inr assms(1) have "err = ''Erreur lors de l'envoi du webhook: ''
           @ string_of_nat (response_status r) @ '' '' @ response_statusText r"
        by (simp add: sendWebhook_def)
      then show ?thesis by simp
    qed
  qed
qed

lemma dispatch_error_nonempty:
  assumes "dispatch env sendMail fetch cfg e w inp data = Inl err"
    and "\<forall>m. sendMail m \<noteq> Inl []"
    and "\<forall>u h p. fetch u h p \<noteq> Inl []"
    and "\<forall>u h p r. fetch u h p = Inr r \<longrightarrow> response_json r \<noteq> Inl []"
  shows "err \<noteq> []"
proof (cases "nc_type cfg = EMAIL \<and> e \<noteq> None")
  case True
  with assms(1) have "sendEmail env sendMail (en_recipients (the e)) (si_title inp) (si_level inp)
      = Inl err" by (simp add: dispatch_def)
  then show ?thesis using assms(2) by (rule sendEmail_error_nonempty)
next
  case False
  show ?thesis
  proof (cases "nc_type cfg = WEBHOOK \<and> w \<noteq> None")
    case True
    with False assms(1) have "sendWebhook fetch (wn_url (the w))
             (or_empty_object (Some (wn_headers (the w))))
             (or_empty_object (Some (wn_payload (the w)))) data = Inl err"
      by (auto simp: dispatch_def)
    then show ?thesis using assms(3,4) by (rule sendWebhook_error_nonempty)
  next
    case n: False
    with False assms(1)
    have "err = ''Type de notification non pris en charge ou configuration incomplete''"
      by (auto simp: dispatch_def)
    then show ?thesis by simp
  qed
qed

lemma send_request_body_parsed:
  "sendNotificationSchema example_zod send_request_body = Some send_request_input"
  by (simp add: sendNotificationSchema_def send_request_body_def send_request_input_def
      required_def optional_def parse_string_min_def parse_string_format_def example_zod_def)

text \<open>
  C4 (as amended). For a send request that passes validation and names an existing
  configuration and an existing server, the identifier drawn for the new row being
  fresh: when the adapter fails with a message, the
  response has status 500 and carries that message and no notification, and the row
  created for the attempt is stored with status FAILED and the message as its status
  details; when the adapter succeeds, the response has status 200 and embeds the row as
  it was created, and the row is stored with status SENT. The message of a failure is
  not empty as long as the mail transport and the webhook endpoint do not fail with an
  empty message.
\<close>

theorem send_reports_adapter_failure:
  assumes "sendNotificationSchema z b = Some inp"
    and "notificationConfig_findUnique d (si_notificationConfigId inp) = Some cfg"
    and "server_findUnique d (si_serverId inp) = Some server"
    and "new_id \<notin> set (map n_id (db_notifications d))"
  shows "(let data = notificationData inp server (send_probe d inp) now;
              notification = new_notification new_id inp data;
              outcome = dispatch env sendMail fetch cfg
                          (emailConfig_of d (si_notificationConfigId inp))
                          (webhookConfig_of d (si_notificationConfigId inp)) inp data;
              r = POST_send z env sendMail fetch new_id now sent d (Some b)
          in (\<forall>err. outcome = Inl err
                \<longrightarrow> fst r = (500, Send_error err)
                   \<and> db_notifications (snd r) = db_notifications d @
                        [notification\<lparr>n_status := FAILED, n_statusDetails := Some err\<rparr>]
                   \<and> ((\<forall>m. sendMail m \<noteq> Inl []) \<and> (\<forall>u h p. fetch u h p \<noteq> Inl [])
                        \<and> (\<forall>u h p x. fetch u h p = Inr x \<longrightarrow> response_json x \<noteq> Inl [])
                       \<longrightarrow> err \<noteq> []))
             \<and> (\<forall>res. outcome = Inr res
                \<longrightarrow> fst r = (200, Send_ok notification res)
                   \<and> db_notifications (snd r) = db_notifications d @
                        [notification\<lparr>n_sentAt := Some sent, n_status := SENT\<rparr>]))"
  unfolding Let_def
  using dispatch_error_nonempty[of env sendMail fetch cfg
      "emailConfig_of d (si_notificationConfigId inp)"
      "webhookConfig_of d (si_notificationConfigId inp)" inp
      "notificationData inp server (send_probe d inp) now"]
  by (simp add: POST_send_dispatched[OF assms] Let_def)

lemma example_send_facts:
  "notificationConfig_findUnique example_db (si_notificationConfigId send_request_input)
     = Some \<lparr>nc_id = ''cfg1'', nc_name = ''mail'', nc_groupId = ''g-ops'', nc_type = EMAIL\<rparr>"
  "server_findUnique example_db (si_serverId send_request_input)
     = Some \<lparr>server_id = ''s-web'', server_name = ''web'', server_groups = [''g-ops''],
             server_createdById = ''u-alice''\<rparr>"
  "''n-1'' \<notin> set (map n_id (db_notifications example_db))"
  "''n-2'' \<notin> set (map n_id (db_notifications example_db))"
  by (simp_all add: notificationConfig_findUnique_def server_findUnique_def
      send_request_input_def example_db_def)

lemma example_dispatch_fails:
  "dispatch example_smtp failing_sendMail fetch
     \<lparr>nc_id = ''cfg1'', nc_name = ''mail'', nc_groupId = ''g-ops'', nc_type = EMAIL\<rparr>
     (emailConfig_of example_db (si_notificationConfigId send_request_input)) w
     send_request_input data
   = Inl ''connect ECONNREFUSED''"
  by (simp add: dispatch_def sendEmail_def failing_sendMail_def example_smtp_def
      truthy_string_def emailConfig_of_def send_request_input_def example_db_def)

lemma example_dispatch_succeeds:
  "dispatch example_smtp accepting_sendMail fetch
     \<lparr>nc_id = ''cfg1'', nc_name = ''mail'', nc_groupId = ''g-ops'', nc_type = EMAIL\<rparr>
     (emailConfig_of example_db (si_notificationConfigId send_request_input)) w
     send_request_input data
   = Inr (JObj [(''accepted'', JArr [JStr ''a@x.com''])])"
  by (simp add: dispatch_def sendEmail_def accepting_sendMail_def example_smtp_def
      truthy_string_def emailConfig_of_def send_request_input_def example_db_def)

text \<open>
  Scenario 3 of the specification: an ERROR event for the EMAIL configuration of the
  sample installation, with a mail transport that refuses the connection. The response
  has status 500 and the message of the transport; the stored row is FAILED with that
  message. With a transport that accepts the mail the response has status 200 and the
  stored row is SENT.
\<close>

theorem send_reports_adapter_failure_witness:
  "sendNotificationSchema example_zod send_request_body \<noteq> None
   \<and> notificationConfig_findUnique example_db ''cfg1'' \<noteq> None
   \<and> server_findUnique example_db ''s-web'' \<noteq> None
   \<and> ''n-1'' \<notin> set (map n_id (db_notifications example_db))
   \<and> fst (POST_send example_zod example_smtp failing_sendMail example_fetch ''n-1'' 10 11
            example_db (Some send_request_body))
       = (500, Send_error ''connect ECONNREFUSED'')
   \<and> map (\<lambda>n. (n_id n, n_status n, n_statusDetails n))
         (db_notifications
            (snd (POST_send example_zod example_smtp failing_sendMail example_fetch ''n-1'' 10 11
                    example_db (Some send_request_body))))
       = [(''n-1'', FAILED, Some ''connect ECONNREFUSED'')]
   \<and> fst (fst (POST_send example_zod example_smtp accepting_sendMail example_fetch ''n-1'' 10 11
                 example_db (Some send_request_body))) = 200
   \<and> map (\<lambda>n. (n_id n, n_status n, n_sentAt n))
         (db_notifications
            (snd (POST_send example_zod example_smtp accepting_sendMail example_fetch ''n-1'' 10
                    11 example_db (Some send_request_body))))
       = [(''n-1'', SENT, Some 11)]"
proof -
  note t = send_reports_adapter_failure[OF send_request_body_parsed example_send_facts(1,2,3),
      of 10 example_smtp failing_sendMail example_fetch 11, unfolded Let_def,
      THEN conjunct1, rule_format, OF example_dispatch_fails]
  note u = send_reports_adapter_failure[OF send_request_body_parsed example_send_facts(1,2,3),
      of 10 example_smtp accepting_sendMail example_fetch 11, unfolded Let_def,
      THEN conjunct2, rule_format, OF example_dispatch_succeeds]
  have a: "notificationConfig_findUnique example_db ''cfg1'' \<noteq> None"
    "server_findUnique example_db ''s-web'' \<noteq> None"
    using example_send_facts(1,2) by (simp_all add: send_request_input_def)
  have b: "sendNotificationSchema example_zod send_request_body \<noteq> None"
    by (simp add: send_request_body_parsed)
  have c: "db_notifications example_db = []" by (simp add: example_db_def)
  from t u a b c example_send_facts(3) show ?thesis
    by (simp add: new_notification_def)
qed

text \<open>The failed delivery is answered with status 500, and the response embeds no row.\<close>

theorem send_failure_status_counterexample:
  "sendNotificationSchema example_zod send_request_body \<noteq> None
   \<and> notificationConfig_findUnique example_db ''cfg1'' \<noteq> None
   \<and> server_findUnique example_db ''s-web'' \<noteq> None
   \<and> fst (POST_send example_zod example_smtp failing_sendMail example_fetch ''n-1'' 10 11
            example_db (Some send_request_body))
       = (500, Send_error ''connect ECONNREFUSED'')
   \<and> (500::nat) \<noteq> 200 \<and> (500::nat) \<noteq> 201"
proof -
  have r: "fst (POST_send example_zod example_smtp failing_sendMail example_fetch ''n-1'' 10 11
            example_db (Some send_request_body))
       = (500, Send_error ''connect ECONNREFUSED'')"
    by (simp add: POST_send_dispatched[OF send_request_body_parsed example_send_facts(1,2,3)]
        example_dispatch_fails Let_def)
  have a: "notificationConfig_findUnique example_db ''cfg1'' \<noteq> None"
    "server_findUnique example_db ''s-web'' \<noteq> None"
    using example_send_facts(1,2) by (simp_all add: send_request_input_def)
  from r a show ?thesis by (simp add: send_request_body_parsed)
qed

lemma POST_send_appends:
  assumes "sendNotificationSchema z b = Some inp"
    and "notificationConfig_findUnique d (si_notificationConfigId inp) = Some cfg"
    and "server_findUnique d (si_serverId inp) = Some server"
    and "new_id \<notin> set (map n_id (db_notifications d))"
  shows "\<exists>n. snd (POST_send z env sendMail fetch new_id now sent d (Some b))
               = d\<lparr>db_notifications := db_notifications d @ [n]\<rparr>
             \<and> n_id n = new_id \<and> (n_status n = SENT \<or> n_status n = FAILED)"
proof -
  let ?data = "notificationData inp server (send_probe d inp) now"
  let ?n = "new_notification new_id inp ?data"
  show ?thesis
  proof (cases "dispatch env sendMail fetch cfg (emailConfig_of d (si_notificationConfigId inp))
                  (webhookConfig_of d (si_notificationConfigId inp)) inp ?data")
    case (Inl err)
    then have "snd (POST_send z env sendMail fetch new_id now sent d (Some b))
        = d\<lparr>db_notifications := db_notifications d @
              [?n\<lparr>n_status := FAILED, n_statusDetails := Some err\<rparr>]\<rparr>"
      by (simp add: POST_send_dispatched[OF assms] Let_def)
    moreover have "n_id (?n\<lparr>n_status := FAILED, n_statusDetails := Some err\<rparr>) = new_id"
      "n_status (?n\<lparr>n_status := FAILED, n_statusDetails := Some err\<rparr>) = FAILED"
      by (simp_all add: new_notification_def)
    ultimately show ?thesis by blast
  next
    case (Inr res)
    then have "snd (POST_send z env sendMail fetch new_id now sent d (Some b))
        = d\<lparr>db_notifications := db_notifications d @
              [?n\<lparr>n_sentAt := Some sent, n_status := SENT\<rparr>]\<rparr>"
      by (simp add: POST_send_dispatched[OF assms] Let_def)
    moreover have "n_id (?n\<lparr>n_sentAt := Some sent, n_status := SENT\<rparr>) = new_id"
      "n_status (?n\<lparr>n_sentAt := Some sent, n_status := SENT\<rparr>) = SENT"
      by (simp_all add: new_notification_def)
    ultimately show ?thesis by blast
  qed
qed

text \<open>
  C6. A send invocation is a request that reaches the dispatch: it has passed validation
  and names an existing configuration and an existing server (the route answers the
  others with 400 or 404 before it). Every such invocation appends exactly one row to the
  history, with the fresh identifier drawn for it, and the row is stored with status
  SENT or FAILED, never PENDING. The same request sent again appends a second row, again
  SENT or FAILED.
\<close>

theorem send_creates_one_terminal_record:
  assumes "sendNotificationSchema z b = Some inp"
    and "notificationConfig_findUnique d (si_notificationConfigId inp) \<noteq> None"
    and "server_findUnique d (si_serverId inp) \<noteq> None"
    and "id1 \<notin> set (map n_id (db_notifications d))"
    and "id2 \<notin> set (map n_id (db_notifications d))"
    and "id1 \<noteq> id2"
  shows "(let r1 = POST_send z env sendMail fetch id1 now1 sent1 d (Some b);
              r2 = POST_send z env sendMail fetch id2 now2 sent2 (snd r1) (Some b)
          in (\<exists>n. db_notifications (snd r1) = db_notifications d @ [n]
                  \<and> n_id n = id1 \<and> (n_status n = SENT \<or> n_status n = FAILED))
             \<and> (\<exists>n m. db_notifications (snd r2) = db_notifications d @ [n, m]
                  \<and> n_id n = id1 \<and> (n_status n = SENT \<or> n_status n = FAILED)
                  \<and> n_id m = id2 \<and> (n_status m = SENT \<or> n_status m = FAILED)))"
proof -
  from assms(2,3) obtain cfg server where
    c: "notificationConfig_findUnique d (si_notificationConfigId inp) = Some cfg"
    and s: "server_findUnique d (si_serverId inp) = Some server" by auto
  let ?r1 = "POST_send z env sendMail fetch id1 now1 sent1 d (Some b)"
  have 1: "\<exists>n. snd ?r1 = d\<lparr>db_notifications := db_notifications d @ [n]\<rparr>
             \<and> n_id n = id1 \<and> (n_status n = SENT \<or> n_status n = FAILED)"
    by (rule POST_send_appends[OF assms(1) c s assms(4)])
  then obtain n where n: "snd ?r1 = d\<lparr>db_notifications := db_notifications d @ [n]\<rparr>"
    "n_id n = id1" "n_status n = SENT \<or> n_status n = FAILED" by blast
  let ?d1 = "d\<lparr>db_notifications := db_notifications d @ [n]\<rparr>"
  have c1: "notificationConfig_findUnique ?d1 (si_notificationConfigId inp) = Some cfg"
    using c by (simp add: notificationConfig_findUnique_def)
  have s1: "server_findUnique ?d1 (si_serverId inp) = Some server"
    using s by (simp add: server_findUnique_def)
  have f1: "id2 \<notin> set (map n_id (db_notifications ?d1))"
    using assms(5,6) n(2) by auto
  let ?r2 = "POST_send z env sendMail fetch id2 now2 sent2 ?d1 (Some b)"
  have 2: "\<exists>m. snd ?r2 = ?d1\<lparr>db_notifications := db_notifications ?d1 @ [m]\<rparr>
             \<and> n_id m = id2 \<and> (n_status m = SENT \<or> n_status m = FAILED)"
    by (rule POST_send_appends[OF assms(1) c1 s1 f1])
  then obtain m where m: "snd ?r2 = ?d1\<lparr>db_notifications := db_notifications ?d1 @ [m]\<rparr>"
    "n_id m = id2" "n_status m = SENT \<or> n_status m = FAILED" by blast
  have a: "db_notifications (snd ?r1) = db_notifications d @ [n]" using n(1) by simp
  have b: "db_notifications (snd (POST_send z env sendMail fetch id2 now2 sent2 (snd ?r1) (Some b)))
             = db_notifications d @ [n, m]"
    unfolding n(1) using m(1) by simp
  from a b n(2,3) m(2,3) show ?thesis unfolding Let_def by blast
qed

text \<open>
  The request of scenario 3 sent twice with a failing transport: the history holds two
  rows, one per call, and none of them is PENDING.
\<close>

theorem send_creates_one_terminal_record_witness:
  "sendNotificationSchema example_zod send_request_body \<noteq> None
   \<and> notificationConfig_findUnique example_db ''cfg1'' \<noteq> None
   \<and> server_findUnique example_db ''s-web'' \<noteq> None
   \<and> db_notifications example_db = []
   \<and> map n_id (db_notifications
        (snd (POST_send example_zod example_smtp failing_sendMail example_fetch ''n-1'' 10 11
                example_db (Some send_request_body)))) = [''n-1'']
   \<and> map n_id (db_notifications
        (snd (POST_send example_zod example_smtp failing_sendMail example_fetch ''n-2'' 20 21
           (snd (POST_send example_zod example_smtp failing_sendMail example_fetch ''n-1'' 10 11
                   example_db (Some send_request_body)))
           (Some send_request_body)))) = [''n-1'', ''n-2'']
   \<and> PENDING \<notin> set (map n_status (db_notifications
        (snd (POST_send example_zod example_smtp failing_sendMail example_fetch ''n-2'' 20 21
           (snd (POST_send example_zod example_smtp failing_sendMail example_fetch ''n-1'' 10 11
                   example_db (Some send_request_body)))
           (Some send_request_body)))))"
proof -
  have c: "notificationConfig_findUnique example_db (si_notificationConfigId send_request_input)
             \<noteq> None"
    and s: "server_findUnique example_db (si_serverId send_request_input) \<noteq> None"
    using example_send_facts(1,2) by simp_all
  have ne: "''n-1'' \<noteq> ''n-2''" by simp
  have e: "db_notifications example_db = []" by (simp add: example_db_def)
  note t = send_creates_one_terminal_record[OF send_request_body_parsed c s
      example_send_facts(3,4) ne, of example_smtp failing_sendMail example_fetch 10 11 20 21,
      unfolded Let_def e append_Nil]
  from t obtain n where n: "db_notifications
        (snd (POST_send example_zod example_smtp failing_sendMail example_fetch ''n-1'' 10 11
                example_db (Some send_request_body))) = [n]" "n_id n = ''n-1''"
    by blast
  from t obtain n' m where m: "db_notifications
        (snd (POST_send example_zod example_smtp failing_sendMail example_fetch ''n-2'' 20 21
           (snd (POST_send example_zod example_smtp failing_sendMail example_fetch ''n-1'' 10 11
                   example_db (Some send_request_body)))
           (Some send_request_body))) = [n', m]"
    "n_id n' = ''n-1''" "n_status n' = SENT \<or> n_status n' = FAILED"
    "n_id m = ''n-2''" "n_status m = SENT \<or> n_status m = FAILED"
    by blast
  have a: "notificationConfig_findUnique example_db ''cfg1'' \<noteq> None"
    "server_findUnique example_db ''s-web'' \<noteq> None"
    using example_send_facts(1,2) by (simp_all add: send_request_input_def)
  from m(3,5) have p: "PENDING \<noteq> n_status n'" "PENDING \<noteq> n_status m" by auto
  show ?thesis
    unfolding n(1) m(1)
    using a e n(2) m(2,4) p by (simp add: send_request_body_parsed)
qed

end
